theory Spec2Isabelle
  imports Complex_Main "HOL-Library.Word" "HOL-Library.List_Lexorder" "HOL-Library.Multiset"
begin

section \<open>JavaScript values\<close>

text \<open>
  A JavaScript string is a sequence of UTF-16 code units, and \<open>length\<close> counts code
  units. Literals of the source that are not ASCII are written as their code units.
\<close>

type_synonym jstring = "16 word list"

definition ascii :: "string \<Rightarrow> jstring" where
  "ascii s = map (\<lambda>c. of_nat (of_char c)) s"

text \<open>
  What \<open>JSON.parse\<close> can return. Numbers are kept as rationals: no claim below depends
  on the rounding of doubles.
\<close>

datatype json =
    JNull
  | JBool bool
  | JNumber rat
  | JString jstring
  | JArray "json list"
  | JObject "(jstring \<times> json) list"

text \<open>A thrown value: an \<open>Error\<close> object with its name and message, or anything else
  (with its rendering by \<open>String(...)\<close>).\<close>

datatype thrown =
    ErrorObj (errName: jstring) (errMessage: jstring)
  | NonError (rendered: jstring)

text \<open>Decimal rendering of an integral number, as a template literal does it
  (\<open>Date.now()\<close> stays far below the magnitude where JavaScript switches to exponents).\<close>

fun digits :: "nat \<Rightarrow> jstring" where
  "digits n = (if n < 10 then [of_nat (48 + n)]
               else digits (n div 10) @ [of_nat (48 + n mod 10)])"

declare digits.simps [simp del]

text \<open>The number that a string of decimal digits denotes.\<close>

definition digitsValue :: "jstring \<Rightarrow> nat" where
  "digitsValue ds = foldl (\<lambda>acc c. 10 * acc + (unat c - 48)) 0 ds"

definition numberToString :: "int \<Rightarrow> jstring" where
  "numberToString i = (if i < 0 then ascii ''-'' @ digits (nat (- i)) else digits (nat i))"

section \<open>Data model (storage.ts, file-processor.ts, gemini-ai.ts)\<close>

text \<open>
  \<open>SourceSummary\<close>: the interface types \<open>summary\<close> and \<open>language\<close> as strings and
  \<open>keyPoints\<close> as a string array, but \<open>generateSourceSummary\<close> copies them unchecked
  from the parsed reply of the remote service, so at run time they hold whatever JSON
  value the reply had.
\<close>

record SourceSummary =
  sourceId :: jstring
  fileName :: jstring
  summary :: json
  keyPoints :: "json list"
  wordCount :: rat
  language :: json

record ProcessedFile =
  pfName :: jstring
  pfType :: jstring
  pfSize :: nat
  pfContent :: jstring
  pfLastModified :: int
  pfId :: jstring
  pfSummary :: "SourceSummary option"
  isProcessing :: "bool option"

text \<open>A file as \<open>saveFile\<close> stores it: the record with its \<open>notebookId\<close> stamped on.\<close>

record StoredFile = ProcessedFile +
  notebookId :: jstring

record NotebookData =
  nbId :: jstring
  nbTitle :: jstring
  nbDescription :: "jstring option"
  nbSources :: "ProcessedFile list"
  createdAt :: int
  updatedAt :: int
  nbSummary :: "jstring option"
  nbTags :: "jstring list option"

record ChatMessage =
  msgId :: jstring
  msgContent :: jstring
  isUser :: bool
  timestamp :: int
  msgSources :: "jstring list option"

text \<open>The argument of \<open>addChatMessage\<close>: \<open>Omit<ChatMessage, 'id' | 'timestamp'>\<close>.\<close>

record ChatPayload =
  plContent :: jstring
  plIsUser :: bool
  plSources :: "jstring list option"

section \<open>The browser and the state of the StorageManager\<close>

text \<open>
  What the browser does when the store touches it. \<open>IdbUnsupported\<close>: there is no
  \<open>window\<close> or no \<open>window.indexedDB\<close>. \<open>IdbOpenFails\<close>: \<open>indexedDB.open\<close> fires
  \<open>onerror\<close>. \<open>idb_request_fails\<close>: a request on an object store fires \<open>onerror\<close>
  (quota exceeded on a \<open>put\<close>, for one). \<open>LsQuotaExceeded\<close>: \<open>localStorage.setItem\<close>
  throws; \<open>LsUnavailable\<close>: every access to \<open>localStorage\<close> throws.
\<close>

datatype idb_status = IdbUnsupported | IdbOpenFails | IdbOpens

datatype ls_status = LsOk | LsQuotaExceeded | LsUnavailable

record browser =
  idbStatus :: idb_status
  idb_request_fails :: bool
  lsStatus :: ls_status

datatype storage_error = OpenError | RequestError | LocalStorageError

text \<open>An item of \<open>localStorage\<close>: no such key, a string that is not JSON, or the value
  that \<open>JSON.stringify\<close> wrote (read back by \<open>JSON.parse\<close> as it was written).\<close>

datatype 'a item = Absent | Corrupt | Stored 'a

text \<open>
  The state: the handle \<open>this.db\<close> (set or null), the two object stores of the database
  \<open>NotebookLM\<close>, both with key path \<open>id\<close> and kept in key order as IndexedDB iterates
  them, and the two items of \<open>localStorage\<close> the manager uses. The \<open>Record<string,
  ChatMessage[]>\<close> under \<open>notebooklm_chats\<close> is kept as the finite map of its own
  properties. The constructor starts
  \<open>initIndexedDB\<close> without awaiting it, so an operation may find the handle set or not:
  both are states of the model.
\<close>

record store =
  db :: bool
  notebooks :: "(jstring \<times> NotebookData) list"
  files :: "(jstring \<times> StoredFile) list"
  ls_chats :: "(jstring \<rightharpoonup> ChatMessage list) item"
  ls_settings :: "(jstring \<times> json) list item"

section \<open>storage.ts\<close>

subsection \<open>IndexedDB primitives\<close>

text \<open>\<open>store.put\<close>, \<open>store.delete\<close> and the index lookup on an object store in key order.\<close>

fun idb_put :: "jstring \<Rightarrow> 'a \<Rightarrow> (jstring \<times> 'a) list \<Rightarrow> (jstring \<times> 'a) list" where
  "idb_put k v [] = [(k, v)]"
| "idb_put k v ((k', v') # xs) =
     (if k = k' then (k, v) # xs
      else if k < k' then (k, v) # (k', v') # xs
      else (k', v') # idb_put k v xs)"

definition idb_delete :: "jstring \<Rightarrow> (jstring \<times> 'a) list \<Rightarrow> (jstring \<times> 'a) list" where
  "idb_delete k xs = filter (\<lambda>kv. fst kv \<noteq> k) xs"

definition initIndexedDB :: "browser \<Rightarrow> store \<Rightarrow> storage_error + store" where
  "initIndexedDB env s =
     (case idbStatus env of
        IdbUnsupported \<Rightarrow> Inr s
      | IdbOpenFails \<Rightarrow> Inl OpenError
      | IdbOpens \<Rightarrow> Inr (s\<lparr>db := True\<rparr>))"

text \<open>The first line of every IndexedDB operation: \<open>if (!this.db) await this.initIndexedDB()\<close>.\<close>

definition ensureDb :: "browser \<Rightarrow> store \<Rightarrow> storage_error + store" where
  "ensureDb env s = (if \<not> db s then initIndexedDB env s else Inr s)"

text \<open>
  The generic operations take the object store by its selector (and its update) in
  place of the source's store name. Every operation returns its result, \<open>Inl\<close> for a
  rejected promise, together with the state it leaves.
\<close>

definition getFromIndexedDB ::
  "browser \<Rightarrow> (store \<Rightarrow> (jstring \<times> 'a) list) \<Rightarrow> jstring \<Rightarrow> store
     \<Rightarrow> (storage_error + 'a option) \<times> store" where
  "getFromIndexedDB env sel key s =
     (case ensureDb env s of
        Inl e \<Rightarrow> (Inl e, s)
      | Inr s1 \<Rightarrow>
          if \<not> db s1 then (Inr None, s1)
          else if idb_request_fails env then (Inl RequestError, s1)
          else (Inr (map_of (sel s1) key), s1))"

definition saveToIndexedDB ::
  "browser \<Rightarrow> (store \<Rightarrow> (jstring \<times> 'a) list)
     \<Rightarrow> (((jstring \<times> 'a) list \<Rightarrow> (jstring \<times> 'a) list) \<Rightarrow> store \<Rightarrow> store)
     \<Rightarrow> ('a \<Rightarrow> jstring) \<Rightarrow> 'a \<Rightarrow> store \<Rightarrow> (storage_error + unit) \<times> store" where
  "saveToIndexedDB env sel upd keyPath data s =
     (case ensureDb env s of
        Inl e \<Rightarrow> (Inl e, s)
      | Inr s1 \<Rightarrow>
          if \<not> db s1 then (Inr (), s1)
          else if idb_request_fails env then (Inl RequestError, s1)
          else (Inr (), upd (idb_put (keyPath data) data) s1))"

definition getAllFromIndexedDB ::
  "browser \<Rightarrow> (store \<Rightarrow> (jstring \<times> 'a) list) \<Rightarrow> store
     \<Rightarrow> (storage_error + 'a list) \<times> store" where
  "getAllFromIndexedDB env sel s =
     (case ensureDb env s of
        Inl e \<Rightarrow> (Inl e, s)
      | Inr s1 \<Rightarrow>
          if \<not> db s1 then (Inr [], s1)
          else if idb_request_fails env then (Inl RequestError, s1)
          else (Inr (map snd (sel s1)), s1))"

subsection \<open>localStorage primitives\<close>

definition localStorage_getItem :: "browser \<Rightarrow> 'a item \<Rightarrow> storage_error + 'a item" where
  "localStorage_getItem env it = (if lsStatus env = LsUnavailable then Inl LocalStorageError else Inr it)"

definition localStorage_setItem :: "browser \<Rightarrow> 'a \<Rightarrow> 'a item \<Rightarrow> storage_error + 'a item" where
  "localStorage_setItem env v it = (if lsStatus env = LsOk then Inr (Stored v) else Inl LocalStorageError)"

definition localStorage_removeItem :: "browser \<Rightarrow> 'a item \<Rightarrow> storage_error + 'a item" where
  "localStorage_removeItem env it = (if lsStatus env = LsUnavailable then Inl LocalStorageError else Inr Absent)"

text \<open>\<open>item ? JSON.parse(item) : null\<close> inside \<open>try\<close>; the \<open>catch\<close> returns null,
  for a throwing \<open>getItem\<close> as for a string that \<open>JSON.parse\<close> rejects.\<close>

definition getFromLocalStorage :: "browser \<Rightarrow> 'a item \<Rightarrow> 'a option" where
  "getFromLocalStorage env it =
     (case localStorage_getItem env it of
        Inl e \<Rightarrow> None
      | Inr Absent \<Rightarrow> None
      | Inr Corrupt \<Rightarrow> None
      | Inr (Stored v) \<Rightarrow> Some v)"

text \<open>\<open>localStorage.setItem(key, JSON.stringify(data))\<close> inside \<open>try\<close>; the \<open>catch\<close>
  only logs.\<close>

definition saveToLocalStorage :: "browser \<Rightarrow> 'a \<Rightarrow> 'a item \<Rightarrow> 'a item" where
  "saveToLocalStorage env data it =
     (case localStorage_setItem env data it of Inl e \<Rightarrow> it | Inr it' \<Rightarrow> it')"

subsection \<open>Notebook operations\<close>

text \<open>\<open>generateId\<close>: the clock reading, an underscore, and the string that
  \<open>Math.random().toString(36).substr(2, 9)\<close> gave.\<close>

definition generateId :: "int \<Rightarrow> jstring \<Rightarrow> jstring" where
  "generateId now rnd = numberToString now @ ascii ''_'' @ rnd"

text \<open>
  \<open>createNotebook\<close> reads the clock three times, in this order: in \<open>generateId\<close>, for
  \<open>createdAt\<close> and for \<open>updatedAt\<close>.
\<close>

definition createNotebook ::
  "browser \<Rightarrow> int \<Rightarrow> jstring \<Rightarrow> int \<Rightarrow> int \<Rightarrow> jstring \<Rightarrow> jstring option \<Rightarrow> store
     \<Rightarrow> (storage_error + NotebookData) \<times> store" where
  "createNotebook env tId rnd tCreated tUpdated title description s =
     (let notebook = \<lparr> nbId = generateId tId rnd, nbTitle = title,
                       nbDescription = description, nbSources = [],
                       createdAt = tCreated, updatedAt = tUpdated,
                       nbSummary = None, nbTags = Some [] \<rparr>
      in case saveToIndexedDB env notebooks notebooks_update nbId notebook s of
           (Inl e, s') \<Rightarrow> (Inl e, s')
         | (Inr u, s') \<Rightarrow> (Inr notebook, s'))"

definition getNotebook ::
  "browser \<Rightarrow> jstring \<Rightarrow> store \<Rightarrow> (storage_error + NotebookData option) \<times> store" where
  "getNotebook env ident s = getFromIndexedDB env notebooks ident s"

text \<open>\<open>notebooks.sort((a, b) => b.updatedAt - a.updatedAt)\<close>: \<open>Array.prototype.sort\<close> is
  stable, as \<open>sort_key\<close> is.\<close>

definition getAllNotebooks ::
  "browser \<Rightarrow> store \<Rightarrow> (storage_error + NotebookData list) \<times> store" where
  "getAllNotebooks env s =
     (case getAllFromIndexedDB env notebooks s of
        (Inl e, s') \<Rightarrow> (Inl e, s')
      | (Inr nbs, s') \<Rightarrow> (Inr (sort_key (\<lambda>n. - updatedAt n) nbs), s'))"

definition updateNotebook ::
  "browser \<Rightarrow> int \<Rightarrow> NotebookData \<Rightarrow> store \<Rightarrow> (storage_error + unit) \<times> store" where
  "updateNotebook env now notebook s =
     saveToIndexedDB env notebooks notebooks_update nbId (notebook\<lparr>updatedAt := now\<rparr>) s"

definition deleteNotebook ::
  "browser \<Rightarrow> jstring \<Rightarrow> store \<Rightarrow> (storage_error + unit) \<times> store" where
  "deleteNotebook env ident s =
     (case ensureDb env s of
        Inl e \<Rightarrow> (Inl e, s)
      | Inr s1 \<Rightarrow>
          if \<not> db s1 then (Inr (), s1)
          else if idb_request_fails env then (Inl RequestError, s1)
          else (Inr (), s1\<lparr>notebooks := idb_delete ident (notebooks s1)\<rparr>))"

subsection \<open>File operations\<close>

definition saveFile ::
  "browser \<Rightarrow> ProcessedFile \<Rightarrow> jstring \<Rightarrow> store \<Rightarrow> (storage_error + unit) \<times> store" where
  "saveFile env file nid s =
     (let fileWithNotebook = ProcessedFile.extend file \<lparr> notebookId = nid \<rparr>
      in saveToIndexedDB env files files_update pfId fileWithNotebook s)"

definition getFile ::
  "browser \<Rightarrow> jstring \<Rightarrow> store \<Rightarrow> (storage_error + StoredFile option) \<times> store" where
  "getFile env ident s = getFromIndexedDB env files ident s"

definition getFilesByNotebook ::
  "browser \<Rightarrow> jstring \<Rightarrow> store \<Rightarrow> (storage_error + StoredFile list) \<times> store" where
  "getFilesByNotebook env nid s =
     (case ensureDb env s of
        Inl e \<Rightarrow> (Inl e, s)
      | Inr s1 \<Rightarrow>
          if \<not> db s1 then (Inr [], s1)
          else if idb_request_fails env then (Inl RequestError, s1)
          else (Inr (filter (\<lambda>f. notebookId f = nid) (map snd (files s1))), s1))"

subsection \<open>Chat operations\<close>

text \<open>
  The chat record is a plain object, read with \<open>chats[notebookId]\<close>: an own property
  wins, and a key that is not an own property but names a member of \<open>Object.prototype\<close>
  yields that member, a function or, for \<open>__proto__\<close>, the prototype object. All of these
  are truthy, so \<open>|| []\<close> does not replace them.
\<close>

definition objectPrototypeMembers :: "jstring list" where
  "objectPrototypeMembers =
     map ascii [''constructor'', ''__defineGetter__'', ''__defineSetter__'', ''hasOwnProperty'',
                ''__lookupGetter__'', ''__lookupSetter__'', ''isPrototypeOf'',
                ''propertyIsEnumerable'', ''toString'', ''valueOf'', ''__proto__'',
                ''toLocaleString'']"

datatype chat_value = Messages "ChatMessage list" | PrototypeMember jstring

definition lookupChats :: "(jstring \<rightharpoonup> ChatMessage list) \<Rightarrow> jstring \<Rightarrow> chat_value" where
  "lookupChats chats nid =
     (case chats nid of
        Some ms \<Rightarrow> Messages ms
      | None \<Rightarrow> if nid \<in> set objectPrototypeMembers then PrototypeMember nid else Messages [])"

text \<open>
  \<open>chats[notebookId] = messages\<close>: an own property is set, except for the key
  \<open>__proto__\<close> on an object without such an own property, where the assignment runs the
  setter of \<open>Object.prototype\<close>: the array becomes the prototype of the object, no own
  property appears, and \<open>JSON.stringify\<close>, which writes the own properties only, writes
  the record as it was read.
\<close>

definition assignChats ::
  "(jstring \<rightharpoonup> ChatMessage list) \<Rightarrow> jstring \<Rightarrow> ChatMessage list
     \<Rightarrow> (jstring \<rightharpoonup> ChatMessage list)" where
  "assignChats chats nid messages =
     (if nid = ascii ''__proto__'' \<and> chats nid = None then chats else chats(nid \<mapsto> messages))"

definition saveChat :: "browser \<Rightarrow> jstring \<Rightarrow> ChatMessage list \<Rightarrow> store \<Rightarrow> store" where
  "saveChat env nid messages s =
     (let chats = (case getFromLocalStorage env (ls_chats s) of None \<Rightarrow> Map.empty | Some c \<Rightarrow> c)
      in s\<lparr>ls_chats := saveToLocalStorage env (assignChats chats nid messages) (ls_chats s)\<rparr>)"

definition getChat :: "browser \<Rightarrow> jstring \<Rightarrow> store \<Rightarrow> chat_value" where
  "getChat env nid s =
     (let chats = (case getFromLocalStorage env (ls_chats s) of None \<Rightarrow> Map.empty | Some c \<Rightarrow> c)
      in lookupChats chats nid)"

text \<open>
  \<open>addChatMessage\<close>: the spread \<open>[...existingMessages, chatMessage]\<close> throws a
  TypeError when \<open>getChat\<close> gave a member of \<open>Object.prototype\<close>, none of which is
  iterable; the promise is then rejected before anything is written.
\<close>

definition addChatMessage ::
  "browser \<Rightarrow> int \<Rightarrow> jstring \<Rightarrow> int \<Rightarrow> jstring \<Rightarrow> ChatPayload \<Rightarrow> store
     \<Rightarrow> (thrown + ChatMessage) \<times> store" where
  "addChatMessage env tId rnd tStamp nid message s =
     (let chatMessage = \<lparr> msgId = generateId tId rnd, msgContent = plContent message,
                          isUser = plIsUser message, timestamp = tStamp,
                          msgSources = plSources message \<rparr>
      in case getChat env nid s of
           PrototypeMember m \<Rightarrow>
             (Inl (ErrorObj (ascii ''TypeError'') (ascii ''existingMessages is not iterable'')), s)
         | Messages existingMessages \<Rightarrow>
             (let updatedMessages = existingMessages @ [chatMessage]
              in (Inr chatMessage, saveChat env nid updatedMessages s)))"

subsection \<open>Settings and reset\<close>

definition saveSettings :: "browser \<Rightarrow> (jstring \<times> json) list \<Rightarrow> store \<Rightarrow> store" where
  "saveSettings env settings s =
     s\<lparr>ls_settings := saveToLocalStorage env settings (ls_settings s)\<rparr>"

definition getSettings :: "browser \<Rightarrow> store \<Rightarrow> (jstring \<times> json) list" where
  "getSettings env s =
     (case getFromLocalStorage env (ls_settings s) of None \<Rightarrow> [] | Some v \<Rightarrow> v)"

text \<open>
  \<open>clearAllData\<close> removes the three keys of \<open>localStorage\<close> outside any \<open>try\<close> (the
  key \<open>notebooklm_notebooks\<close> is never written, so two items are in the state), then
  clears both object stores.
\<close>

definition clearAllData :: "browser \<Rightarrow> store \<Rightarrow> (storage_error + unit) \<times> store" where
  "clearAllData env s =
     (case localStorage_removeItem env (ls_chats s) of
        Inl e \<Rightarrow> (Inl e, s)
      | Inr c \<Rightarrow>
         (case localStorage_removeItem env (ls_settings s) of
            Inl e \<Rightarrow> (Inl e, s)
          | Inr st \<Rightarrow>
             (let s0 = s\<lparr>ls_chats := c, ls_settings := st\<rparr>
              in case ensureDb env s0 of
                   Inl e \<Rightarrow> (Inl e, s0)
                 | Inr s1 \<Rightarrow>
                     if \<not> db s1 then (Inr (), s1)
                     else if idb_request_fails env then (Inl RequestError, s1)
                     else (Inr (), s1\<lparr>files := [], notebooks := []\<rparr>))))"

subsection \<open>The dashboard's delete handler (app/page.tsx)\<close>

text \<open>
  \<open>handleDeleteNotebook\<close>: after the user's \<open>confirm\<close>, the only storage call is
  \<open>storage.deleteNotebook\<close>; then the notebook leaves the displayed list. The third
  component says whether the \<open>catch\<close> branch raised its alert.
\<close>

definition handleDeleteNotebook ::
  "browser \<Rightarrow> bool \<Rightarrow> jstring \<Rightarrow> store \<times> NotebookData list
     \<Rightarrow> store \<times> NotebookData list \<times> bool" where
  "handleDeleteNotebook env confirmed nid st =
     (case st of (s, nbs) \<Rightarrow>
        if confirmed then
          (case deleteNotebook env nid s of
             (Inl e, s') \<Rightarrow> (s', nbs, True)
           | (Inr u, s') \<Rightarrow> (s', filter (\<lambda>nb. nbId nb \<noteq> nid) nbs, False))
        else (s, nbs, False))"

section \<open>String literals of the source\<close>

text \<open>The literals of file-processor.ts and gemini-ai.ts that the model needs, each as the
  UTF-16 code units of the source text.\<close>

text \<open>file-processor.ts line 35: the placeholder notice for a PDF, before the file name (18
  code units).\<close>

definition pdfNoticePrefix :: jstring where
  "pdfNoticePrefix =
    [0x0050, 0x0044, 0x0046, 0x0020, 0xD30C, 0xC77C, 0xC774, 0x0020, 0xC5C5, 0xB85C,
     0xB4DC, 0xB418, 0xC5C8, 0xC2B5, 0xB2C8, 0xB2E4, 0x003A, 0x0020]"

text \<open>file-processor.ts line 35: the placeholder notice for a PDF, after the file name (48
  code units).\<close>

definition pdfNoticeSuffix :: jstring where
  "pdfNoticeSuffix =
    [0x000A, 0x000A, 0x005B, 0x0050, 0x0044, 0x0046, 0x0020, 0xD14D, 0xC2A4, 0xD2B8,
     0x0020, 0xCD94, 0xCD9C, 0x0020, 0xAE30, 0xB2A5, 0xC740, 0x0020, 0xC11C, 0xBC84,
     0x0020, 0xC0AC, 0xC774, 0xB4DC, 0xC5D0, 0xC11C, 0x0020, 0xAD6C, 0xD604, 0xB429,
     0xB2C8, 0xB2E4, 0x002E, 0x0020, 0xD604, 0xC7AC, 0xB294, 0x0020, 0xB370, 0xBAA8,
     0x0020, 0xBAA8, 0xB4DC, 0xC785, 0xB2C8, 0xB2E4, 0x002E, 0x005D]"

text \<open>file-processor.ts line 37: the message prefix of the error rethrown by the PDF extractor
  (16 code units).\<close>

definition pdfErrorPrefix :: jstring where
  "pdfErrorPrefix =
    [0x0050, 0x0044, 0x0046, 0x0020, 0xCC98, 0xB9AC, 0x0020, 0xC911, 0x0020, 0xC624,
     0xB958, 0x0020, 0xBC1C, 0xC0DD, 0x003A, 0x0020]"

text \<open>file-processor.ts line 48: the message prefix of the error rethrown by the DOCX
  extractor (17 code units).\<close>

definition docxErrorPrefix :: jstring where
  "docxErrorPrefix =
    [0x0044, 0x004F, 0x0043, 0x0058, 0x0020, 0xCC98, 0xB9AC, 0x0020, 0xC911, 0x0020,
     0xC624, 0xB958, 0x0020, 0xBC1C, 0xC0DD, 0x003A, 0x0020]"

text \<open>file-processor.ts line 57: the message prefix of the error rethrown by the plain text
  extractor (19 code units).\<close>

definition textErrorPrefix :: jstring where
  "textErrorPrefix =
    [0xD14D, 0xC2A4, 0xD2B8, 0x0020, 0xD30C, 0xC77C, 0x0020, 0xCC98, 0xB9AC, 0x0020,
     0xC911, 0x0020, 0xC624, 0xB958, 0x0020, 0xBC1C, 0xC0DD, 0x003A, 0x0020]"

text \<open>file-processor.ts line 66: the placeholder notice for HWPX, before the file name (19
  code units).\<close>

definition hwpxNoticePrefix :: jstring where
  "hwpxNoticePrefix =
    [0x0048, 0x0057, 0x0050, 0x0058, 0x0020, 0xD30C, 0xC77C, 0xC774, 0x0020, 0xC5C5,
     0xB85C, 0xB4DC, 0xB418, 0xC5C8, 0xC2B5, 0xB2C8, 0xB2E4, 0x003A, 0x0020]"

text \<open>file-processor.ts line 66: the placeholder notice for HWPX, after the file name (32 code
  units).\<close>

definition hwpxNoticeSuffix :: jstring where
  "hwpxNoticeSuffix =
    [0x000A, 0x000A, 0x005B, 0x0048, 0x0057, 0x0050, 0x0058, 0x0020, 0xD14D, 0xC2A4,
     0xD2B8, 0x0020, 0xCD94, 0xCD9C, 0x0020, 0xAE30, 0xB2A5, 0xC740, 0x0020, 0xCD94,
     0xD6C4, 0x0020, 0xAD6C, 0xD604, 0x0020, 0xC608, 0xC815, 0xC785, 0xB2C8, 0xB2E4,
     0x002E, 0x005D]"

text \<open>file-processor.ts line 97: the message of the unsupported-format error, before the file
  name (18 code units).\<close>

definition unsupportedFormatPrefix :: jstring where
  "unsupportedFormatPrefix =
    [0xC9C0, 0xC6D0, 0xB418, 0xC9C0, 0x0020, 0xC54A, 0xB294, 0x0020, 0xD30C, 0xC77C,
     0x0020, 0xD615, 0xC2DD, 0xC785, 0xB2C8, 0xB2E4, 0x003A, 0x0020]"

text \<open>file-processor.ts line 117: the message used when the thrown value is not an Error (18
  code units).\<close>

definition unknownErrorMessage :: jstring where
  "unknownErrorMessage =
    [0xC54C, 0x0020, 0xC218, 0x0020, 0xC5C6, 0xB294, 0x0020, 0xC624, 0xB958, 0xAC00,
     0x0020, 0xBC1C, 0xC0DD, 0xD588, 0xC2B5, 0xB2C8, 0xB2E4, 0x002E]"

text \<open>file-processor.ts line 133: the summary text for a document under 100 code units (25
  code units).\<close>

definition shortDocumentSummary :: jstring where
  "shortDocumentSummary =
    [0xBB38, 0xC11C, 0xAC00, 0x0020, 0xB108, 0xBB34, 0x0020, 0xC9E7, 0xC544, 0xC11C,
     0x0020, 0xC694, 0xC57D, 0xD560, 0x0020, 0xB0B4, 0xC6A9, 0xC774, 0x0020, 0xBD80,
     0xC871, 0xD569, 0xB2C8, 0xB2E4, 0x002E]"

text \<open>file-processor.ts line 134: the only key point for a document under 100 code units (5
  code units).\<close>

definition shortDocumentMarker :: jstring where
  "shortDocumentMarker =
    [0xC9E7, 0xC740, 0x0020, 0xBB38, 0xC11C]"

text \<open>file-processor.ts line 136: the language label when the Hangul test succeeds (3 code
  units).\<close>

definition langKorean :: jstring where
  "langKorean =
    [0xD55C, 0xAD6D, 0xC5B4]"

text \<open>file-processor.ts line 136: the language label otherwise (2 code units).\<close>

definition langEnglish :: jstring where
  "langEnglish =
    [0xC601, 0xC5B4]"

text \<open>file-processor.ts line 157: the summary text of the catch branch of generateFileSummary
  (22 code units).\<close>

definition summaryFailedMessage :: jstring where
  "summaryFailedMessage =
    [0x0041, 0x0049, 0x0020, 0xC694, 0xC57D, 0x0020, 0xC0DD, 0xC131, 0x0020, 0xC911,
     0x0020, 0xC624, 0xB958, 0xAC00, 0x0020, 0xBC1C, 0xC0DD, 0xD588, 0xC2B5, 0xB2C8,
     0xB2E4, 0x002E]"

text \<open>file-processor.ts line 158: the key point of that catch branch (8 code units).\<close>

definition summaryFailedMarker :: jstring where
  "summaryFailedMarker =
    [0xC694, 0xC57D, 0x0020, 0xC0DD, 0xC131, 0x0020, 0xC2E4, 0xD328]"

text \<open>file-processor.ts line 160: the language label of that catch branch (6 code units).\<close>

definition langUnknown :: jstring where
  "langUnknown =
    [0xC54C, 0x0020, 0xC218, 0x0020, 0xC5C6, 0xC74C]"

text \<open>gemini-ai.ts line 52: the summary text when the trimmed content is under 50 code units
  (25 code units).\<close>

definition tooShortSummary :: jstring where
  "tooShortSummary =
    [0xBB38, 0xC11C, 0x0020, 0xB0B4, 0xC6A9, 0xC774, 0x0020, 0xB108, 0xBB34, 0x0020,
     0xC9E7, 0xC544, 0xC11C, 0x0020, 0xC694, 0xC57D, 0xD560, 0x0020, 0xC218, 0x0020,
     0xC5C6, 0xC2B5, 0xB2C8, 0xB2E4, 0x002E]"

text \<open>gemini-ai.ts line 53: its only key point (8 code units).\<close>

definition tooShortMarker :: jstring where
  "tooShortMarker =
    [0xBB38, 0xC11C, 0x0020, 0xB0B4, 0xC6A9, 0x0020, 0xBD80, 0xC871]"

text \<open>gemini-ai.ts line 62: appended to content cut at 10000 code units (13 code units).\<close>

definition truncationMark :: jstring where
  "truncationMark =
    [0x002E, 0x002E, 0x002E, 0x0028, 0xB0B4, 0xC6A9, 0x0020, 0xC77C, 0xBD80, 0x0020,
     0xC0DD, 0xB7B5, 0x0029]"

text \<open>gemini-ai.ts line 87: the message of the error thrown when there is no response (17 code
  units).\<close>

definition noResponseMessage :: jstring where
  "noResponseMessage =
    [0x0041, 0x0049, 0x0020, 0xC751, 0xB2F5, 0xC744, 0x0020, 0xBC1B, 0xC744, 0x0020,
     0xC218, 0x0020, 0xC5C6, 0xC2B5, 0xB2C8, 0xB2E4, 0x002E]"

text \<open>gemini-ai.ts line 94: the message of the error thrown when the reply is blank (14 code
  units).\<close>

definition emptyResponseMessage :: jstring where
  "emptyResponseMessage =
    [0x0041, 0x0049, 0x0020, 0xC751, 0xB2F5, 0xC774, 0x0020, 0xBE44, 0xC5B4, 0xC788,
     0xC2B5, 0xB2C8, 0xB2E4, 0x002E]"

text \<open>gemini-ai.ts line 108: the default summary of the JSON path (25 code units).\<close>

definition unparsedSummaryDefault :: jstring where
  "unparsedSummaryDefault =
    [0xC694, 0xC57D, 0xC744, 0x0020, 0xC0DD, 0xC131, 0xD588, 0xC9C0, 0xB9CC, 0x0020,
     0xB0B4, 0xC6A9, 0xC744, 0x0020, 0xD30C, 0xC2F1, 0xD560, 0x0020, 0xC218, 0x0020,
     0xC5C6, 0xC2B5, 0xB2C8, 0xB2E4, 0x002E]"

text \<open>gemini-ai.ts line 109: the default key point of the JSON path (18 code units).\<close>

definition unparsedKeyPointDefault :: jstring where
  "unparsedKeyPointDefault =
    [0xC8FC, 0xC694, 0x0020, 0xD3EC, 0xC778, 0xD2B8, 0xB97C, 0x0020, 0xCD94, 0xCD9C,
     0xD560, 0x0020, 0xC218, 0x0020, 0xC5C6, 0xC2B5, 0xB2C8, 0xB2E4]"

text \<open>gemini-ai.ts line 122: the first needle of the line search (2 code units).\<close>

definition needleSummaryKo :: jstring where
  "needleSummaryKo =
    [0xC694, 0xC57D]"

text \<open>gemini-ai.ts line 126: the third needle of the key-point filter (3 code units).\<close>

definition needlePointKo :: jstring where
  "needlePointKo =
    [0xD3EC, 0xC778, 0xD2B8]"

text \<open>gemini-ai.ts line 133: the default summary of the line-based path (29 code units).\<close>

definition heuristicSummaryDefault :: jstring where
  "heuristicSummaryDefault =
    [0x0041, 0x0049, 0xAC00, 0x0020, 0xC694, 0xC57D, 0xC744, 0x0020, 0xC0DD, 0xC131,
     0xD588, 0xC9C0, 0xB9CC, 0x0020, 0xD615, 0xC2DD, 0xC744, 0x0020, 0xD30C, 0xC2F1,
     0xD560, 0x0020, 0xC218, 0x0020, 0xC5C6, 0xC2B5, 0xB2C8, 0xB2E4, 0x002E]"

text \<open>gemini-ai.ts line 134: the default key point of the line-based path (16 code units).\<close>

definition heuristicKeyPointDefault :: jstring where
  "heuristicKeyPointDefault =
    [0xD0A4, 0xD3EC, 0xC778, 0xD2B8, 0xB97C, 0x0020, 0xCD94, 0xCD9C, 0xD560, 0x0020,
     0xC218, 0x0020, 0xC5C6, 0xC2B5, 0xB2C8, 0xB2E4]"

text \<open>gemini-ai.ts line 143: the explanation for an unclassified failure (22 code units).\<close>

definition genericErrorMessage :: jstring where
  "genericErrorMessage =
    [0x0041, 0x0049, 0x0020, 0xC694, 0xC57D, 0x0020, 0xC0DD, 0xC131, 0x0020, 0xC911,
     0x0020, 0xC624, 0xB958, 0xAC00, 0x0020, 0xBC1C, 0xC0DD, 0xD588, 0xC2B5, 0xB2C8,
     0xB2E4, 0x002E]"

text \<open>gemini-ai.ts line 146: the explanation for an API-key failure (20 code units).\<close>

definition apiKeyErrorMessage :: jstring where
  "apiKeyErrorMessage =
    [0x0041, 0x0049, 0x0020, 0x0041, 0x0050, 0x0049, 0x0020, 0xD0A4, 0x0020, 0xC124,
     0xC815, 0xC744, 0x0020, 0xD655, 0xC778, 0xD574, 0xC8FC, 0xC138, 0xC694, 0x002E]"

text \<open>gemini-ai.ts line 148: the explanation for an exceeded quota (22 code units).\<close>

definition quotaErrorMessage :: jstring where
  "quotaErrorMessage =
    [0x0041, 0x0049, 0x0020, 0x0041, 0x0050, 0x0049, 0x0020, 0xC0AC, 0xC6A9, 0xB7C9,
     0x0020, 0xD55C, 0xB3C4, 0xB97C, 0x0020, 0xCD08, 0xACFC, 0xD588, 0xC2B5, 0xB2C8,
     0xB2E4, 0x002E]"

text \<open>gemini-ai.ts line 150: the explanation for a reply blocked by the safety filter (26 code
  units).\<close>

definition safetyErrorMessage :: jstring where
  "safetyErrorMessage =
    [0x0041, 0x0049, 0x0020, 0xC548, 0xC804, 0xC131, 0x0020, 0xD544, 0xD130, 0xC5D0,
     0x0020, 0xC758, 0xD574, 0x0020, 0xC694, 0xC57D, 0xC774, 0x0020, 0xCC28, 0xB2E8,
     0xB418, 0xC5C8, 0xC2B5, 0xB2C8, 0xB2E4, 0x002E]"

text \<open>gemini-ai.ts line 158: the key point of a failed summary (21 code units).\<close>

definition errorKeyPoint :: jstring where
  "errorKeyPoint =
    [0xC624, 0xB958, 0xB85C, 0x0020, 0xC778, 0xD574, 0x0020, 0xC694, 0xC57D, 0xC744,
     0x0020, 0xC0DD, 0xC131, 0xD560, 0x0020, 0xC218, 0x0020, 0xC5C6, 0xC2B5, 0xB2C8,
     0xB2E4]"

text \<open>gemini-ai.ts line 221: the first hedging marker (3 code units).\<close>

definition hedgeUncertain :: jstring where
  "hedgeUncertain =
    [0xBD88, 0xD655, 0xC2E4]"

text \<open>gemini-ai.ts line 221: the second hedging marker (2 code units).\<close>

definition hedgeGuess :: jstring where
  "hedgeGuess =
    [0xCD94, 0xCE21]"

text \<open>gemini-ai.ts line 236: the fixed reply of the catch branch of generateChatResponse (45
  code units).\<close>

definition chatApology :: jstring where
  "chatApology =
    [0xC8C4, 0xC1A1, 0xD569, 0xB2C8, 0xB2E4, 0x002E, 0x0020, 0x0041, 0x0049, 0x0020,
     0xC751, 0xB2F5, 0x0020, 0xC0DD, 0xC131, 0x0020, 0xC911, 0x0020, 0xC624, 0xB958,
     0xAC00, 0x0020, 0xBC1C, 0xC0DD, 0xD588, 0xC2B5, 0xB2C8, 0xB2E4, 0x002E, 0x0020,
     0xC7A0, 0xC2DC, 0x0020, 0xD6C4, 0x0020, 0xB2E4, 0xC2DC, 0x0020, 0xC2DC, 0xB3C4,
     0xD574, 0xC8FC, 0xC138, 0xC694, 0x002E]"

section \<open>String operations of JavaScript\<close>

definition startsWith :: "jstring \<Rightarrow> jstring \<Rightarrow> bool" where
  "startsWith s p = (take (length p) s = p)"

definition endsWith :: "jstring \<Rightarrow> jstring \<Rightarrow> bool" where
  "endsWith s p = (length p \<le> length s \<and> drop (length s - length p) s = p)"

fun includesStr :: "jstring \<Rightarrow> jstring \<Rightarrow> bool" where
  "includesStr [] p = (p = [])"
| "includesStr (c # cs) p = (startsWith (c # cs) p \<or> includesStr cs p)"

text \<open>White space and line terminators: what \<open>trim\<close> strips and \<open>\s\<close> matches.\<close>

definition isWhiteSpace :: "16 word \<Rightarrow> bool" where
  "isWhiteSpace c =
     ((0x0009 \<le> c \<and> c \<le> 0x000D) \<or> c = 0x0020 \<or> c = 0x00A0 \<or> c = 0x1680
      \<or> (0x2000 \<le> c \<and> c \<le> 0x200A) \<or> c = 0x2028 \<or> c = 0x2029 \<or> c = 0x202F
      \<or> c = 0x205F \<or> c = 0x3000 \<or> c = 0xFEFF)"

definition trim :: "jstring \<Rightarrow> jstring" where
  "trim s = rev (dropWhile isWhiteSpace (rev (dropWhile isWhiteSpace s)))"

text \<open>\<open>\w\<close>: letters, digits and the underscore of ASCII.\<close>

definition isWordChar :: "16 word \<Rightarrow> bool" where
  "isWordChar c =
     ((0x41 \<le> c \<and> c \<le> 0x5A) \<or> (0x61 \<le> c \<and> c \<le> 0x7A) \<or> (0x30 \<le> c \<and> c \<le> 0x39)
      \<or> c = 0x5F)"

text \<open>The range U+AC00 to U+D7A3 of the Hangul syllables.\<close>

definition isHangulSyllable :: "16 word \<Rightarrow> bool" where
  "isHangulSyllable c = (0xAC00 \<le> c \<and> c \<le> 0xD7A3)"

text \<open>
  The language test of both files, a character class of three ranges separated by
  \<open>|\<close>: U+3131 to U+314E, U+314F to U+3163, U+AC00 to U+D7A3. Inside a class the bar
  is a member, so U+007C matches too.
\<close>

definition hangulTest :: "jstring \<Rightarrow> bool" where
  "hangulTest s =
     list_ex (\<lambda>c. (0x3131 \<le> c \<and> c \<le> 0x314E) \<or> c = 0x7C \<or> (0x314F \<le> c \<and> c \<le> 0x3163)
                  \<or> isHangulSyllable c) s"

definition detectLanguage :: "jstring \<Rightarrow> jstring" where
  "detectLanguage s = (if hangulTest s then langKorean else langEnglish)"

text \<open>\<open>s.split(sep)\<close> for a separator of one code unit.\<close>

fun split :: "16 word \<Rightarrow> jstring \<Rightarrow> jstring list" where
  "split sep [] = [[]]"
| "split sep (c # cs) =
     (if c = sep then [] # split sep cs
      else (case split sep cs of [] \<Rightarrow> [[c]] | l # rest \<Rightarrow> (c # l) # rest))"

text \<open>The two \<open>replace(/[^...]/g, '')\<close> calls of the line-based extraction: the second
  class also keeps the hyphen.\<close>

definition cleanSummaryText :: "jstring \<Rightarrow> jstring" where
  "cleanSummaryText s =
     filter (\<lambda>c. isWordChar c \<or> isWhiteSpace c \<or> isHangulSyllable c
                 \<or> c = 0x2E \<or> c = 0x2C \<or> c = 0x21 \<or> c = 0x3F) s"

definition cleanKeyPointText :: "jstring \<Rightarrow> jstring" where
  "cleanKeyPointText s =
     filter (\<lambda>c. isWordChar c \<or> isWhiteSpace c \<or> isHangulSyllable c
                 \<or> c = 0x2E \<or> c = 0x2C \<or> c = 0x21 \<or> c = 0x3F \<or> c = 0x2D) s"

text \<open>\<open>String(e)\<close> of a thrown value, as a template literal renders it.\<close>

definition thrownToString :: "thrown \<Rightarrow> jstring" where
  "thrownToString e =
     (case e of
        ErrorObj n m \<Rightarrow> (if n = [] then m else if m = [] then n else n @ ascii '': '' @ m)
      | NonError r \<Rightarrow> r)"

definition newError :: "jstring \<Rightarrow> thrown" where
  "newError m = ErrorObj (ascii ''Error'') m"

section \<open>gemini-ai.ts\<close>

text \<open>
  The remote text-completion service is a black box. A call either throws (in
  \<open>generateContent\<close>, while awaiting the response, or in \<open>response.text()\<close>), yields no
  response object, or yields the reply text. The fixed wording of the prompt is left
  out: the service is a function of the parts of the prompt that vary.
\<close>

datatype remote_outcome = CallThrows thrown | NoResponse | ReplyText jstring

text \<open>Truthiness, for the \<open>||\<close> defaults.\<close>

fun truthy :: "json \<Rightarrow> bool" where
  "truthy JNull = False"
| "truthy (JBool b) = b"
| "truthy (JNumber r) = (r \<noteq> 0)"
| "truthy (JString s) = (s \<noteq> [])"
| "truthy (JArray xs) = True"
| "truthy (JObject kvs) = True"

text \<open>
  Reading a property of the parsed reply: \<open>null\<close> throws a TypeError, an object gives
  the property or \<open>undefined\<close> (\<open>None\<close>), and any other value has none of the four
  properties read here.
\<close>

fun getProp :: "json \<Rightarrow> jstring \<Rightarrow> thrown + json option" where
  "getProp JNull p = Inl (ErrorObj (ascii ''TypeError'') (ascii ''Cannot read properties of null''))"
| "getProp (JObject kvs) p = Inr (map_of kvs p)"
| "getProp v p = Inr None"

text \<open>\<open>text.match(/\{[\s\S]*\}/)\<close>: from the first opening brace to the last closing
  brace after it.\<close>

definition matchBraces :: "jstring \<Rightarrow> jstring option" where
  "matchBraces text =
     (let fromOpen = dropWhile (\<lambda>c. c \<noteq> 0x7B) text;
          m = rev (dropWhile (\<lambda>c. c \<noteq> 0x7D) (rev fromOpen))
      in if m = [] then None else Some m)"

definition sourceIdOf :: "int \<Rightarrow> jstring \<Rightarrow> jstring" where
  "sourceIdOf now rnd = ascii ''source_'' @ numberToString now @ ascii ''_'' @ rnd"

text \<open>The body of the inner \<open>try\<close>: the strict parse of the reply. \<open>parse\<close> is
  \<open>JSON.parse\<close> (\<open>None\<close> when it throws).\<close>

definition parseStrict ::
  "(jstring \<Rightarrow> json option) \<Rightarrow> jstring \<Rightarrow> jstring \<Rightarrow> jstring \<Rightarrow> jstring
     \<Rightarrow> thrown + SourceSummary" where
  "parseStrict parse sid fname content text =
     (let jsonText = (case matchBraces text of Some m \<Rightarrow> m | None \<Rightarrow> text)
      in case parse jsonText of
           None \<Rightarrow> Inl (ErrorObj (ascii ''SyntaxError'') [])
         | Some parsed \<Rightarrow>
            (case getProp parsed (ascii ''summary'') of
               Inl e \<Rightarrow> Inl e
             | Inr pSummary \<Rightarrow>
                (case getProp parsed (ascii ''keyPoints'') of
                   Inl e \<Rightarrow> Inl e
                 | Inr pKeyPoints \<Rightarrow>
                    (case getProp parsed (ascii ''estimatedWords'') of
                       Inl e \<Rightarrow> Inl e
                     | Inr pWords \<Rightarrow>
                        (case getProp parsed (ascii ''language'') of
                           Inl e \<Rightarrow> Inl e
                         | Inr pLanguage \<Rightarrow>
                            Inr \<lparr> sourceId = sid, fileName = fname,
                                  summary = (case pSummary of
                                               Some v \<Rightarrow> if truthy v then v
                                                         else JString unparsedSummaryDefault
                                             | None \<Rightarrow> JString unparsedSummaryDefault),
                                  keyPoints = (case pKeyPoints of
                                                 Some (JArray xs) \<Rightarrow> xs
                                               | _ \<Rightarrow> [JString unparsedKeyPointDefault]),
                                  wordCount = (case pWords of
                                                 Some (JNumber r) \<Rightarrow> r
                                               | _ \<Rightarrow> of_nat (length content div 5)),
                                  language = (case pLanguage of
                                                Some v \<Rightarrow> if truthy v then v
                                                          else JString (detectLanguage content)
                                              | None \<Rightarrow> JString (detectLanguage content)) \<rparr>)))))"

text \<open>The \<open>catch (parseError)\<close> branch: the line-based extraction.\<close>

definition parseHeuristic :: "jstring \<Rightarrow> jstring \<Rightarrow> jstring \<Rightarrow> jstring \<Rightarrow> SourceSummary" where
  "parseHeuristic sid fname content text =
     (let lines = filter (\<lambda>line. trim line \<noteq> []) (split 0x0A text);
          found = (case find (\<lambda>line. includesStr line needleSummaryKo
                                   \<or> includesStr line (ascii ''summary'')) lines of
                     None \<Rightarrow> []
                   | Some line \<Rightarrow> trim (cleanSummaryText line));
          summ = (if found \<noteq> [] then found else trim (cleanSummaryText (take 200 text)));
          points = take 3 (map (\<lambda>line. trim (cleanKeyPointText line))
                     (filter (\<lambda>line. includesStr line (ascii ''-'') \<or> includesStr line [0x2022]
                                     \<or> includesStr line needlePointKo) lines))
      in \<lparr> sourceId = sid, fileName = fname,
           summary = JString (if summ \<noteq> [] then summ else heuristicSummaryDefault),
           keyPoints = (if length points > 0 then map JString points
                        else [JString heuristicKeyPointDefault]),
           wordCount = of_nat (length content div 5),
           language = JString (detectLanguage content) \<rparr>)"

text \<open>The outer \<open>catch\<close>: the failure is classified by its message.\<close>

definition classifyError :: "thrown \<Rightarrow> jstring" where
  "classifyError e =
     (case e of
        ErrorObj n m \<Rightarrow>
          if includesStr m (ascii ''API_KEY'') then apiKeyErrorMessage
          else if includesStr m (ascii ''quota'') \<or> includesStr m (ascii ''limit'') then quotaErrorMessage
          else if includesStr m (ascii ''safety'') then safetyErrorMessage
          else genericErrorMessage
      | NonError r \<Rightarrow> genericErrorMessage)"

text \<open>
  \<open>generateSourceSummary\<close>. The service receives the file name, the content cut at
  10000 code units and the word estimate. The result comes with the number of remote
  calls made.
\<close>

definition generateSourceSummary ::
  "(jstring \<Rightarrow> json option) \<Rightarrow> (jstring \<Rightarrow> jstring \<Rightarrow> nat \<Rightarrow> remote_outcome)
     \<Rightarrow> int \<Rightarrow> jstring \<Rightarrow> jstring \<Rightarrow> jstring \<Rightarrow> SourceSummary \<times> nat" where
  "generateSourceSummary parse remote now rnd fname content =
     (let sid = sourceIdOf now rnd
      in if content = [] \<or> length (trim content) < 50 then
           (\<lparr> sourceId = sid, fileName = fname, summary = JString tooShortSummary,
              keyPoints = [JString tooShortMarker], wordCount = of_nat (length content),
              language = JString (detectLanguage content) \<rparr>, 0)
         else
           (let maxContentLength = 10000;
                truncatedContent = (if length content > maxContentLength
                                    then take maxContentLength content @ truncationMark
                                    else content);
                attempt = (case remote fname truncatedContent (length content div 5) of
                             CallThrows e \<Rightarrow> Inl e
                           | NoResponse \<Rightarrow> Inl (newError noResponseMessage)
                           | ReplyText text \<Rightarrow>
                               if text = [] \<or> length (trim text) = 0
                               then Inl (newError emptyResponseMessage)
                               else Inr (case parseStrict parse sid fname content text of
                                           Inr s \<Rightarrow> s
                                         | Inl parseError \<Rightarrow>
                                             parseHeuristic sid fname content text))
            in case attempt of
                 Inr s \<Rightarrow> (s, 1)
               | Inl error \<Rightarrow>
                   (\<lparr> sourceId = sid, fileName = fname,
                      summary = JString (classifyError error),
                      keyPoints = [JString errorKeyPoint],
                      wordCount = of_nat (length content div 5),
                      language = JString (detectLanguage content) \<rparr>, 1)))"

subsection \<open>Chat\<close>

record ChatSource =
  csName :: jstring
  csContent :: jstring
  csSummary :: "jstring option"

record ChatTurn =
  fromUser :: bool
  turnContent :: jstring

record ChatResponse =
  crContent :: jstring
  crSources :: "jstring list"
  confidence :: rat

text \<open>
  \<open>generateChatResponse\<close>. The service receives the query, the sources and the last
  six turns (\<open>chatHistory.slice(-6)\<close>). There is no check of the response object here, so
  a missing one makes \<open>response.text()\<close> throw, into the same \<open>catch\<close>.
\<close>

definition generateChatResponse ::
  "(jstring \<Rightarrow> ChatSource list \<Rightarrow> ChatTurn list \<Rightarrow> remote_outcome)
     \<Rightarrow> jstring \<Rightarrow> ChatSource list \<Rightarrow> ChatTurn list \<Rightarrow> ChatResponse" where
  "generateChatResponse remote userQuery sources chatHistory =
     (case remote userQuery sources (drop (length chatHistory - 6) chatHistory) of
        ReplyText content \<Rightarrow>
          (let referencedSources =
                 map csName (filter (\<lambda>source. includesStr content (csName source)) sources);
               confidence0 =
                 (if includesStr content hedgeUncertain \<or> includesStr content hedgeGuess then 5 / 10
                  else if length referencedSources > 1 then 9 / 10
                  else 8 / 10)
           in \<lparr> crContent = content, crSources = referencedSources, confidence = confidence0 \<rparr>)
      | _ \<Rightarrow> \<lparr> crContent = chatApology, crSources = [], confidence = 0 \<rparr>)"

section \<open>file-processor.ts\<close>

text \<open>
  An uploaded \<open>File\<close>: name, declared media type, size, modification time, and what
  reading its body gives: \<open>fBuffer\<close> is the error of \<open>file.arrayBuffer()\<close> when it
  rejects, \<open>fText\<close> the outcome of \<open>file.text()\<close>, \<open>fRawText\<close> the outcome of
  \<open>mammoth.extractRawText\<close> on the bytes.
\<close>

record File =
  fName :: jstring
  fType :: jstring
  fSize :: nat
  fLastModified :: int
  fBuffer :: "thrown option"
  fText :: "thrown + jstring"
  fRawText :: "thrown + jstring"

record FileProcessingResult =
  success :: bool
  resFile :: "ProcessedFile option"
  resError :: "jstring option"

definition generateFileId :: "int \<Rightarrow> jstring \<Rightarrow> jstring" where
  "generateFileId now rnd = ascii ''file_'' @ numberToString now @ ascii ''_'' @ rnd"

definition extractPdfText :: "File \<Rightarrow> thrown + jstring" where
  "extractPdfText file =
     (case fBuffer file of
        Some error \<Rightarrow> Inl (newError (pdfErrorPrefix @ thrownToString error))
      | None \<Rightarrow> Inr (pdfNoticePrefix @ fName file @ pdfNoticeSuffix))"

definition extractDocxText :: "File \<Rightarrow> thrown + jstring" where
  "extractDocxText file =
     (case fBuffer file of
        Some error \<Rightarrow> Inl (newError (docxErrorPrefix @ thrownToString error))
      | None \<Rightarrow>
         (case fRawText file of
            Inl error \<Rightarrow> Inl (newError (docxErrorPrefix @ thrownToString error))
          | Inr v \<Rightarrow> Inr v))"

definition extractTextFileContent :: "File \<Rightarrow> thrown + jstring" where
  "extractTextFileContent file =
     (case fText file of
        Inl error \<Rightarrow> Inl (newError (textErrorPrefix @ thrownToString error))
      | Inr v \<Rightarrow> Inr v)"

definition extractHwpxText :: "File \<Rightarrow> thrown + jstring" where
  "extractHwpxText file = Inr (hwpxNoticePrefix @ fName file @ hwpxNoticeSuffix)"

text \<open>
  The dispatch of \<open>processFile\<close>, on the lower-cased type and name. \<open>toLowerCase\<close> is
  the platform's function and a parameter here.
\<close>

definition extractContent :: "(jstring \<Rightarrow> jstring) \<Rightarrow> File \<Rightarrow> thrown + jstring" where
  "extractContent toLowerCase file =
     (let fileType = toLowerCase (fType file);
          fileName = toLowerCase (fName file)
      in if fileType = ascii ''application/pdf'' \<or> endsWith fileName (ascii ''.pdf'') then
           extractPdfText file
         else if fileType =
                   ascii ''application/vnd.openxmlformats-officedocument.wordprocessingml.document''
                 \<or> endsWith fileName (ascii ''.docx'') then
           extractDocxText file
         else if endsWith fileName (ascii ''.hwpx'') then
           extractHwpxText file
         else if startsWith fileType (ascii ''text/'')
                 \<or> endsWith fileName (ascii ''.txt'')
                 \<or> endsWith fileName (ascii ''.md'')
                 \<or> endsWith fileName (ascii ''.markdown'') then
           extractTextFileContent file
         else Inl (newError (unsupportedFormatPrefix @ fName file)))"

definition processFile ::
  "(jstring \<Rightarrow> jstring) \<Rightarrow> int \<Rightarrow> jstring \<Rightarrow> File \<Rightarrow> FileProcessingResult" where
  "processFile toLowerCase now rnd file =
     (case extractContent toLowerCase file of
        Inr content \<Rightarrow>
          \<lparr> success = True,
            resFile = Some \<lparr> pfName = fName file,
                             pfType = (if fType file \<noteq> [] then fType file else ascii ''unknown''),
                             pfSize = fSize file, pfContent = content,
                             pfLastModified = fLastModified file,
                             pfId = generateFileId now rnd,
                             pfSummary = None, isProcessing = Some True \<rparr>,
            resError = None \<rparr>
      | Inl error \<Rightarrow>
          \<lparr> success = False, resFile = None,
            resError = Some (case error of ErrorObj n m \<Rightarrow> m
                                         | NonError r \<Rightarrow> unknownErrorMessage) \<rparr>)"

text \<open>
  \<open>generateFileSummary\<close>, with the number of remote calls made. The word count of the
  short branch is the unrounded quotient \<open>content.length / 5\<close>. First the body of its
  \<open>try\<close>: nothing in it throws, \<open>generateSourceSummary\<close> having a \<open>catch\<close> of its
  own, so the value is always \<open>Inr\<close>.
\<close>

definition fileSummaryAttempt ::
  "(jstring \<Rightarrow> json option) \<Rightarrow> (jstring \<Rightarrow> jstring \<Rightarrow> nat \<Rightarrow> remote_outcome)
     \<Rightarrow> int \<Rightarrow> jstring \<Rightarrow> ProcessedFile \<Rightarrow> thrown + ProcessedFile \<times> nat" where
  "fileSummaryAttempt parse remote now rnd processedFile =
     (if length (pfContent processedFile) < 100 then
        Inr (processedFile\<lparr>
               isProcessing := Some False,
               pfSummary := Some \<lparr> sourceId = pfId processedFile,
                                   fileName = pfName processedFile,
                                   summary = JString shortDocumentSummary,
                                   keyPoints = [JString shortDocumentMarker],
                                   wordCount = of_nat (length (pfContent processedFile)) / 5,
                                   language = JString (detectLanguage (pfContent processedFile)) \<rparr>\<rparr>,
             0)
      else
        (case generateSourceSummary parse remote now rnd
                (pfName processedFile) (pfContent processedFile) of
           (s, calls) \<Rightarrow>
             Inr (processedFile\<lparr>pfSummary := Some s, isProcessing := Some False\<rparr>, calls)))"

definition generateFileSummary ::
  "(jstring \<Rightarrow> json option) \<Rightarrow> (jstring \<Rightarrow> jstring \<Rightarrow> nat \<Rightarrow> remote_outcome)
     \<Rightarrow> int \<Rightarrow> jstring \<Rightarrow> ProcessedFile \<Rightarrow> ProcessedFile \<times> nat" where
  "generateFileSummary parse remote now rnd processedFile =
     (case fileSummaryAttempt parse remote now rnd processedFile of
        Inr done \<Rightarrow> done
      | Inl error \<Rightarrow>
          (processedFile\<lparr>
             isProcessing := Some False,
             pfSummary := Some \<lparr> sourceId = pfId processedFile,
                                 fileName = pfName processedFile,
                                 summary = JString summaryFailedMessage,
                                 keyPoints = [JString summaryFailedMarker],
                                 wordCount = of_nat (length (pfContent processedFile)) / 5,
                                 language = JString langUnknown \<rparr>\<rparr>,
           1))"

section \<open>The ingestion flow (components/source-upload-modal.tsx)\<close>

datatype upload_status = Pending | Processing | Success | Error

record FileUploadStatus =
  upFile :: File
  status :: upload_status
  processedFile :: "ProcessedFile option"
  error :: "jstring option"
  progress :: nat











section \<open>Concrete browsers, stores and inputs\<close>

definition okBrowser :: browser where
  "okBrowser = \<lparr> idbStatus = IdbOpens, idb_request_fails = False, lsStatus = LsOk \<rparr>"

definition noIdbBrowser :: browser where
  "noIdbBrowser = \<lparr> idbStatus = IdbUnsupported, idb_request_fails = False, lsStatus = LsOk \<rparr>"

definition openFailsBrowser :: browser where
  "openFailsBrowser = \<lparr> idbStatus = IdbOpenFails, idb_request_fails = False, lsStatus = LsOk \<rparr>"

definition quotaBrowser :: browser where
  "quotaBrowser = \<lparr> idbStatus = IdbOpens, idb_request_fails = True, lsStatus = LsQuotaExceeded \<rparr>"

definition lsDownBrowser :: browser where
  "lsDownBrowser = \<lparr> idbStatus = IdbOpens, idb_request_fails = False, lsStatus = LsUnavailable \<rparr>"

definition emptyStore :: store where
  "emptyStore = \<lparr> db = False, notebooks = [], files = [], ls_chats = Absent,
                   ls_settings = Absent \<rparr>"

definition exNotebook :: "jstring \<Rightarrow> int \<Rightarrow> NotebookData" where
  "exNotebook ident t = \<lparr> nbId = ident, nbTitle = ascii ''Contracts'', nbDescription = None,
                          nbSources = [], createdAt = 1, updatedAt = t, nbSummary = None,
                          nbTags = Some [] \<rparr>"

definition exFile :: StoredFile where
  "exFile = \<lparr> pfName = ascii ''lease.txt'', pfType = ascii ''text/plain'', pfSize = 5,
              pfContent = ascii ''lease'', pfLastModified = 1, pfId = ascii ''file_1_a'',
              pfSummary = None, isProcessing = Some False, notebookId = ascii ''1_n'' \<rparr>"

definition exMessage :: ChatMessage where
  "exMessage = \<lparr> msgId = ascii ''2_m'', msgContent = ascii ''hello'', isUser = True,
                 timestamp = 2, msgSources = None \<rparr>"

definition exPayload :: "string \<Rightarrow> ChatPayload" where
  "exPayload c = \<lparr> plContent = ascii c, plIsUser = True, plSources = None \<rparr>"

text \<open>An open store holding one notebook, one file owned by it and one message of its chat.\<close>

definition exStore :: store where
  "exStore = \<lparr> db = True, notebooks = [(ascii ''1_n'', exNotebook (ascii ''1_n'') 1)],
               files = [(ascii ''file_1_a'', exFile)],
               ls_chats = Stored [ascii ''1_n'' \<mapsto> [exMessage]],
               ls_settings = Absent \<rparr>"

text \<open>An open store holding two notebooks, the one with the smaller key updated earlier.\<close>

definition twoNotebooks :: store where
  "twoNotebooks = \<lparr> db = True,
                    notebooks = [(ascii ''1_a'', exNotebook (ascii ''1_a'') 1),
                                 (ascii ''2_b'', exNotebook (ascii ''2_b'') 2)],
                    files = [], ls_chats = Absent, ls_settings = Absent \<rparr>"

text \<open>A store whose chat record holds the lists of two notebooks.\<close>

definition twoChats :: store where
  "twoChats = \<lparr> db = True, notebooks = [], files = [],
                ls_chats = Stored [ascii ''1_n'' \<mapsto> [exMessage], ascii ''2_x'' \<mapsto> [exMessage]],
                ls_settings = Stored [(ascii ''theme'', JString (ascii ''dark''))] \<rparr>"

text \<open>An ASCII-only lower-casing, which agrees with \<open>toLowerCase\<close> on strings whose
  letters are all ASCII.\<close>

definition asciiLowerCase :: "jstring \<Rightarrow> jstring" where
  "asciiLowerCase s = map (\<lambda>c. if 0x41 \<le> c \<and> c \<le> 0x5A then c + 0x20 else c) s"

text \<open>A service that is down.\<close>

definition failingRemote :: "jstring \<Rightarrow> jstring \<Rightarrow> nat \<Rightarrow> remote_outcome" where
  "failingRemote fname content w = CallThrows (newError (ascii ''fetch failed''))"

definition noParse :: "jstring \<Rightarrow> json option" where
  "noParse text = None"






text \<open>The plain-text file \<open>note.txt\<close> of 50 characters, and what \<open>processFile\<close> makes
  of it at clock reading 1 with random string \<open>f\<close>.\<close>

definition noteFile :: File where
  "noteFile = \<lparr> fName = ascii ''note.txt'', fType = ascii ''text/plain'', fSize = 50,
                 fLastModified = 1, fBuffer = None, fText = Inr (replicate 50 0x61),
                 fRawText = Inr [] \<rparr>"

definition noteProcessed :: ProcessedFile where
  "noteProcessed = \<lparr> pfName = ascii ''note.txt'', pfType = ascii ''text/plain'', pfSize = 50,
                      pfContent = replicate 50 0x61, pfLastModified = 1,
                      pfId = ascii ''file_1_f'', pfSummary = None, isProcessing = Some True \<rparr>"

text \<open>
  A reply of the service that is valid JSON with an empty \<open>keyPoints\<close> array: the 31
  code units of an object with the property \<open>summary\<close>, the string \<open>ok\<close>, and the
  property \<open>keyPoints\<close>, the empty array, written without spaces. Then what
  \<open>JSON.parse\<close> makes of it, a service that gives this reply, and a content of 100
  letters.
\<close>

definition emptyKeyPointsReply :: jstring where
  "emptyKeyPointsReply =
    [0x007B, 0x0022, 0x0073, 0x0075, 0x006D, 0x006D, 0x0061, 0x0072, 0x0079, 0x0022,
     0x003A, 0x0022, 0x006F, 0x006B, 0x0022, 0x002C, 0x0022, 0x006B, 0x0065, 0x0079,
     0x0050, 0x006F, 0x0069, 0x006E, 0x0074, 0x0073, 0x0022, 0x003A, 0x005B, 0x005D,
     0x007D]"

definition parseOfReply :: "jstring \<Rightarrow> json option" where
  "parseOfReply text =
     (if text = emptyKeyPointsReply
      then Some (JObject [(ascii ''summary'', JString (ascii ''ok'')),
                          (ascii ''keyPoints'', JArray [])])
      else None)"

definition replyingRemote :: "jstring \<Rightarrow> jstring \<Rightarrow> nat \<Rightarrow> remote_outcome" where
  "replyingRemote fname content w = ReplyText emptyKeyPointsReply"

definition hundredLetters :: jstring where
  "hundredLetters = replicate 100 0x78"

section \<open>Facts about the storage primitives\<close>

lemma map_of_idb_put: "map_of (idb_put k v xs) = (map_of xs)(k \<mapsto> v)"
  by (induction xs) (auto simp: fun_eq_iff)

lemma map_of_idb_delete: "map_of (idb_delete k xs) = (map_of xs)(k := None)"
  by (induction xs) (auto simp: idb_delete_def fun_eq_iff)

lemma ensureDb_cases:
  "ensureDb env s =
     (if db s then Inr s
      else case idbStatus env of IdbUnsupported \<Rightarrow> Inr s | IdbOpenFails \<Rightarrow> Inl OpenError
           | IdbOpens \<Rightarrow> Inr (s\<lparr>db := True\<rparr>))"
  by (simp add: ensureDb_def initIndexedDB_def)

lemma saveToIndexedDB_cases:
  "saveToIndexedDB env sel upd kp data s =
     (if db s then
        (if idb_request_fails env then (Inl RequestError, s)
         else (Inr (), upd (idb_put (kp data) data) s))
      else case idbStatus env of
             IdbUnsupported \<Rightarrow> (Inr (), s)
           | IdbOpenFails \<Rightarrow> (Inl OpenError, s)
           | IdbOpens \<Rightarrow>
               (if idb_request_fails env then (Inl RequestError, s\<lparr>db := True\<rparr>)
                else (Inr (), upd (idb_put (kp data) data) (s\<lparr>db := True\<rparr>))))"
  by (simp add: saveToIndexedDB_def ensureDb_cases split: idb_status.splits)

lemma getFromIndexedDB_cases:
  "getFromIndexedDB env sel key s =
     (if db s then
        (if idb_request_fails env then (Inl RequestError, s)
         else (Inr (map_of (sel s) key), s))
      else case idbStatus env of
             IdbUnsupported \<Rightarrow> (Inr None, s)
           | IdbOpenFails \<Rightarrow> (Inl OpenError, s)
           | IdbOpens \<Rightarrow>
               (if idb_request_fails env then (Inl RequestError, s\<lparr>db := True\<rparr>)
                else (Inr (map_of (sel (s\<lparr>db := True\<rparr>)) key), s\<lparr>db := True\<rparr>)))"
  by (simp add: getFromIndexedDB_def ensureDb_cases split: idb_status.splits)

lemma getFromLocalStorage_cases:
  "getFromLocalStorage env it =
     (if lsStatus env = LsUnavailable then None
      else case it of Absent \<Rightarrow> None | Corrupt \<Rightarrow> None | Stored v \<Rightarrow> Some v)"
  by (simp add: getFromLocalStorage_def localStorage_getItem_def split: item.splits)

lemma saveToLocalStorage_cases:
  "saveToLocalStorage env v it = (if lsStatus env = LsOk then Stored v else it)"
  by (simp add: saveToLocalStorage_def localStorage_setItem_def)

subsection \<open>Ids are injective in the clock reading and the random string\<close>

lemma unat_digit: "n < 10 \<Longrightarrow> unat (of_nat (48 + n) :: 16 word) = 48 + n"
  by (simp only: unat_of_nat) simp

lemma digitsValue_digits: "digitsValue (digits n) = n"
proof (induction n rule: digits.induct)
  case (1 n)
  show ?case
  proof (cases "n < 10")
    case True
    then show ?thesis
      by (subst digits.simps) (simp add: digitsValue_def unat_digit del: of_nat_add)
  next
    case False
    have m: "n mod 10 < 10" by simp
    from False 1 have "digitsValue (digits (n div 10)) = n div 10" by simp
    with False show ?thesis
      by (subst digits.simps) (simp add: digitsValue_def unat_digit [OF m] del: of_nat_add)
  qed
qed

lemma digits_inj: "digits m = digits n \<Longrightarrow> m = n"
  by (metis digitsValue_digits)

lemma digits_range: "c \<in> set (digits n) \<Longrightarrow> 48 \<le> unat c \<and> unat c \<le> 57"
proof (induction n rule: digits.induct)
  case (1 n)
  show ?case
  proof (cases "n < 10")
    case True
    with 1(2) show ?thesis
      by (subst (asm) digits.simps) (auto simp: unat_digit simp del: of_nat_add)
  next
    case False
    have m: "n mod 10 < 10" by simp
    from False 1(2) have "c \<in> set (digits (n div 10)) \<or> c = of_nat (48 + n mod 10)"
      by (subst (asm) digits.simps) auto
    then show ?thesis
    proof
      assume "c \<in> set (digits (n div 10))"
      with 1(1) False show ?thesis by simp
    next
      assume "c = of_nat (48 + n mod 10)"
      then show ?thesis using unat_digit [OF m] by simp
    qed
  qed
qed

lemma digits_nonempty: "digits n \<noteq> []"
  by (subst digits.simps) simp

lemma hd_digits: "48 \<le> unat (hd (digits n))"
  using digits_range [of "hd (digits n)" n] digits_nonempty [of n] by simp

lemma numberToString_inj: "numberToString i = numberToString j \<Longrightarrow> i = j"
proof -
  assume eq: "numberToString i = numberToString j"
  have neg: "digits a \<noteq> ascii ''-'' @ digits b" for a b
  proof
    assume "digits a = ascii ''-'' @ digits b"
    then have "hd (digits a) = 45" by (simp add: ascii_def)
    with hd_digits [of a] show False by simp
  qed
  show ?thesis
  proof (cases "i < 0"; cases "j < 0")
    assume "i < 0" "j < 0"
    with eq have "nat (- i) = nat (- j)" by (auto simp: numberToString_def dest: digits_inj)
    with \<open>i < 0\<close> \<open>j < 0\<close> show ?thesis by simp
  next
    assume "i < 0" "\<not> j < 0"
    with eq neg [of "nat j" "nat (- i)"] show ?thesis by (simp add: numberToString_def)
  next
    assume "\<not> i < 0" "j < 0"
    with eq neg [of "nat i" "nat (- j)"] show ?thesis by (simp add: numberToString_def)
  next
    assume "\<not> i < 0" "\<not> j < 0"
    with eq have "nat i = nat j" by (auto simp: numberToString_def dest: digits_inj)
    with \<open>\<not> i < 0\<close> \<open>\<not> j < 0\<close> show ?thesis by simp
  qed
qed

lemma numberToString_no_underscore: "c \<in> set (numberToString i) \<Longrightarrow> c \<noteq> 95"
  using digits_range [of c]
  by (auto simp: numberToString_def ascii_def split: if_splits)

lemma generateId_inj:
  assumes "generateId t r = generateId t' r'"
  shows "t = t' \<and> r = r'"
proof -
  let ?P = "\<lambda>c::16 word. c \<noteq> 95"
  have tw: "takeWhile ?P (generateId a b) = numberToString a" for a b
    using numberToString_no_underscore [of _ a]
    by (simp add: generateId_def ascii_def takeWhile_append2)
  from assms have "numberToString t = numberToString t'"
    using tw [of t r] tw [of t' r'] by simp
  then have "t = t'" by (rule numberToString_inj)
  with assms show ?thesis by (simp add: generateId_def)
qed

section \<open>Notebook listing\<close>

lemma sorted_desc_sort_key:
  "sorted_wrt (\<lambda>a b. updatedAt b \<le> updatedAt a) (sort_key (\<lambda>n. - updatedAt n) nbs)"
proof -
  have "sorted (map (\<lambda>n. - updatedAt n) (sort_key (\<lambda>n. - updatedAt n) nbs))"
    by (rule sorted_sort_key)
  then show ?thesis by (simp add: sorted_map)
qed

text \<open>
  C9. When a database handle exists or can be opened and the request succeeds,
  \<open>getAllNotebooks\<close> returns exactly the stored notebook records (as a multiset), in
  descending order of \<open>updatedAt\<close>; where IndexedDB is not supported and there is no
  handle it returns the empty list; it rejects when the open or the request fails.
  Whenever it returns a list, the list is in
  descending order of \<open>updatedAt\<close> and, with a handle, holds exactly the stored records.
  The call changes no stored notebook, and a second call with nothing written in between
  gives the same result, in the same order, and leaves the same state.
\<close>

theorem getAllNotebooks_sorted_idempotent:
  assumes "getAllNotebooks env s = (r, s')"
  shows "((db s \<or> idbStatus env = IdbOpens) \<and> \<not> idb_request_fails env \<longrightarrow>
            r = Inr (sort_key (\<lambda>n. - updatedAt n) (map snd (notebooks s)))
          \<and> (\<exists>nbs. r = Inr nbs \<and> mset nbs = mset (map snd (notebooks s))
                 \<and> sorted_wrt (\<lambda>a b. updatedAt b \<le> updatedAt a) nbs)
          \<and> db s')
       \<and> (\<not> db s \<and> idbStatus env = IdbUnsupported \<longrightarrow> r = Inr [] \<and> s' = s)
       \<and> (\<not> db s \<and> idbStatus env = IdbOpenFails \<longrightarrow> r = Inl OpenError \<and> s' = s)
       \<and> ((db s \<or> idbStatus env = IdbOpens) \<and> idb_request_fails env \<longrightarrow> r = Inl RequestError)
       \<and> (\<forall>nbs. r = Inr nbs \<longrightarrow>
            sorted_wrt (\<lambda>a b. updatedAt b \<le> updatedAt a) nbs
          \<and> (if db s' then mset nbs = mset (map snd (notebooks s)) else nbs = []))
       \<and> notebooks s' = notebooks s
       \<and> getAllNotebooks env s' = (r, s')"
  using assms
  by (auto simp: getAllNotebooks_def getAllFromIndexedDB_def ensureDb_cases sorted_desc_sort_key
      split: if_splits idb_status.splits)

text \<open>Right after the page has loaded the handle is not set yet: the first call opens
  the database, and two stored notebooks come back with the later update first, both
  times.\<close>

theorem getAllNotebooks_sorted_idempotent_witness:
  "(db (twoNotebooks\<lparr>db := False\<rparr>) \<or> idbStatus okBrowser = IdbOpens)
   \<and> \<not> idb_request_fails okBrowser
   \<and> getAllNotebooks okBrowser (twoNotebooks\<lparr>db := False\<rparr>)
     = (Inr [exNotebook (ascii ''2_b'') 2, exNotebook (ascii ''1_a'') 1], twoNotebooks)
   \<and> sorted_wrt (\<lambda>a b. updatedAt b \<le> updatedAt a)
        [exNotebook (ascii ''2_b'') 2, exNotebook (ascii ''1_a'') 1]
   \<and> getAllNotebooks okBrowser twoNotebooks
     = (Inr [exNotebook (ascii ''2_b'') 2, exNotebook (ascii ''1_a'') 1], twoNotebooks)"
proof -
  have a: "db (twoNotebooks\<lparr>db := False\<rparr>) \<or> idbStatus okBrowser = IdbOpens"
    "\<not> idb_request_fails okBrowser"
    by (simp_all add: okBrowser_def)
  have run: "getAllNotebooks okBrowser (twoNotebooks\<lparr>db := False\<rparr>)
     = (Inr [exNotebook (ascii ''2_b'') 2, exNotebook (ascii ''1_a'') 1], twoNotebooks)"
    by (simp add: getAllNotebooks_def getAllFromIndexedDB_def ensureDb_cases okBrowser_def
        twoNotebooks_def exNotebook_def)
  note again = getAllNotebooks_sorted_idempotent [OF run, THEN conjunct2, THEN conjunct2,
      THEN conjunct2, THEN conjunct2, THEN conjunct2, THEN conjunct2]
  note order = getAllNotebooks_sorted_idempotent [OF run, THEN conjunct2, THEN conjunct2,
      THEN conjunct2, THEN conjunct2, THEN conjunct1, rule_format, OF refl, THEN conjunct1]
  from a run again order show ?thesis by simp
qed

section \<open>Chat writes\<close>

lemma saveChat_frame:
  "n' \<noteq> nid \<Longrightarrow> getChat env' n' (saveChat env nid ms s) = getChat env' n' s"
  by (cases "ls_chats s")
     (auto simp: getChat_def saveChat_def lookupChats_def assignChats_def Let_def
        getFromLocalStorage_cases saveToLocalStorage_cases)

lemma saveChat_other_fields:
  "ls_settings (saveChat env nid ms s) = ls_settings s
   \<and> notebooks (saveChat env nid ms s) = notebooks s
   \<and> files (saveChat env nid ms s) = files s
   \<and> db (saveChat env nid ms s) = db s"
  by (simp add: saveChat_def Let_def)

lemma addChatMessage_frame:
  "n' \<noteq> nid \<Longrightarrow>
     getChat env' n' (snd (addChatMessage env tId rnd tStamp nid payload s)) = getChat env' n' s"
  by (cases "getChat env nid s") (simp_all add: addChatMessage_def Let_def saveChat_frame)

lemma addChatMessage_other_fields:
  "ls_settings (snd (addChatMessage env tId rnd tStamp nid payload s)) = ls_settings s
   \<and> notebooks (snd (addChatMessage env tId rnd tStamp nid payload s)) = notebooks s
   \<and> files (snd (addChatMessage env tId rnd tStamp nid payload s)) = files s
   \<and> db (snd (addChatMessage env tId rnd tStamp nid payload s)) = db s"
  by (cases "getChat env nid s") (simp_all add: addChatMessage_def Let_def saveChat_other_fields)

lemma proto_not_member: "nid \<notin> set objectPrototypeMembers \<Longrightarrow> nid \<noteq> ascii ''__proto__''"
  by (auto simp: objectPrototypeMembers_def)

lemma getChat_plain_id:
  "nid \<notin> set objectPrototypeMembers \<Longrightarrow> \<exists>ms. getChat env nid s = Messages ms"
  by (simp add: getChat_def lookupChats_def split: option.splits)

lemma getChat_saveChat_same:
  "lsStatus env = LsOk \<Longrightarrow> lsStatus env' \<noteq> LsUnavailable \<Longrightarrow> nid \<noteq> ascii ''__proto__'' \<Longrightarrow>
     getChat env' nid (saveChat env nid ms s) = Messages ms"
  by (cases "ls_chats s")
     (auto simp: getChat_def saveChat_def lookupChats_def assignChats_def Let_def
        getFromLocalStorage_cases saveToLocalStorage_cases)

text \<open>
  C10. \<open>saveChat\<close> and \<open>addChatMessage\<close> for notebook \<open>nid\<close> change nothing but the
  chat list under \<open>nid\<close>: under every condition of the browser, at the write and at
  the later read, \<open>getChat\<close> of every other notebook id returns what it returned
  before, and the settings item, the notebook records, the file records and the
  database handle are the same. This holds whether \<open>addChatMessage\<close> resolves or
  rejects.
\<close>

theorem chat_write_frame:
  "(\<forall>env' n'. n' \<noteq> nid \<longrightarrow>
       getChat env' n' (saveChat env nid ms s) = getChat env' n' s
     \<and> getChat env' n' (snd (addChatMessage env tId rnd tStamp nid payload s)) = getChat env' n' s)
   \<and> ls_settings (saveChat env nid ms s) = ls_settings s
   \<and> notebooks (saveChat env nid ms s) = notebooks s
   \<and> files (saveChat env nid ms s) = files s
   \<and> db (saveChat env nid ms s) = db s
   \<and> ls_settings (snd (addChatMessage env tId rnd tStamp nid payload s)) = ls_settings s
   \<and> notebooks (snd (addChatMessage env tId rnd tStamp nid payload s)) = notebooks s
   \<and> files (snd (addChatMessage env tId rnd tStamp nid payload s)) = files s
   \<and> db (snd (addChatMessage env tId rnd tStamp nid payload s)) = db s"
  by (simp add: saveChat_frame saveChat_other_fields addChatMessage_frame
      addChatMessage_other_fields)

text \<open>A message added to one notebook, and a chat saved for it, leave the list of
  another notebook as it was.\<close>

theorem chat_write_frame_witness:
  "ascii ''2_x'' \<noteq> ascii ''1_n''
   \<and> getChat okBrowser (ascii ''2_x'')
        (snd (addChatMessage okBrowser 3 (ascii ''r'') 3 (ascii ''1_n'') (exPayload ''hi'') twoChats))
       = Messages [exMessage]
   \<and> getChat okBrowser (ascii ''2_x'') (saveChat okBrowser (ascii ''1_n'') [] twoChats)
       = Messages [exMessage]"
proof -
  have ne: "ascii ''2_x'' \<noteq> ascii ''1_n''" by (simp add: ascii_def)
  have before: "getChat okBrowser (ascii ''2_x'') twoChats = Messages [exMessage]"
    by (simp add: getChat_def lookupChats_def getFromLocalStorage_cases okBrowser_def
        twoChats_def exMessage_def ascii_def)
  note frame = chat_write_frame [of "ascii ''1_n''" okBrowser "[]" twoChats 3 "ascii ''r''" 3
      "exPayload ''hi''", THEN conjunct1, rule_format, OF ne]
  from frame ne before show ?thesis by simp
qed

text \<open>
  C5, as amended. For a notebook id that does not name a member of
  \<open>Object.prototype\<close>, and with \<open>localStorage\<close> working at both writes and readable
  afterwards, two calls of \<open>addChatMessage\<close> for that notebook both resolve, and
  \<open>getChat\<close> then returns the earlier list followed by the two new messages in call
  order. Each message carries its payload and the clock reading taken in its call, so
  the second timestamp is greater than the first exactly when the clock moved between
  the two readings.
\<close>

theorem addChatMessage_twice:
  fixes p1 p2 :: ChatPayload
  defines "stamped \<equiv> \<lambda>tId rnd t p. \<lparr> msgId = generateId tId rnd, msgContent = plContent p,
                                       isUser = plIsUser p, timestamp = t,
                                       msgSources = plSources p \<rparr>"
  assumes "lsStatus env1 = LsOk" and "lsStatus env2 = LsOk" and "lsStatus env3 \<noteq> LsUnavailable"
    and "nid \<notin> set objectPrototypeMembers"
    and "addChatMessage env1 tId1 rnd1 t1 nid p1 s = (r1, s1)"
    and "addChatMessage env2 tId2 rnd2 t2 nid p2 s1 = (r2, s2)"
  shows "r1 = Inr (stamped tId1 rnd1 t1 p1) \<and> r2 = Inr (stamped tId2 rnd2 t2 p2)
       \<and> (\<exists>existing. getChat env1 nid s = Messages existing
              \<and> getChat env3 nid s2
                  = Messages (existing @ [stamped tId1 rnd1 t1 p1, stamped tId2 rnd2 t2 p2]))
       \<and> timestamp (stamped tId1 rnd1 t1 p1) = t1 \<and> timestamp (stamped tId2 rnd2 t2 p2) = t2
       \<and> (timestamp (stamped tId1 rnd1 t1 p1) < timestamp (stamped tId2 rnd2 t2 p2)) = (t1 < t2)"
proof -
  note np = proto_not_member [OF assms(5)]
  obtain existing where ex: "getChat env1 nid s = Messages existing"
    using getChat_plain_id [OF assms(5)] by blast
  from assms(6) ex have r1: "r1 = Inr (stamped tId1 rnd1 t1 p1)"
    and s1: "s1 = saveChat env1 nid (existing @ [stamped tId1 rnd1 t1 p1]) s"
    by (auto simp: addChatMessage_def Let_def stamped_def)
  have g1: "getChat env2 nid s1 = Messages (existing @ [stamped tId1 rnd1 t1 p1])"
    unfolding s1 using assms(2,3) np by (simp add: getChat_saveChat_same)
  from assms(7) g1 have r2: "r2 = Inr (stamped tId2 rnd2 t2 p2)"
    and s2: "s2 = saveChat env2 nid
                    ((existing @ [stamped tId1 rnd1 t1 p1]) @ [stamped tId2 rnd2 t2 p2]) s1"
    by (auto simp: addChatMessage_def Let_def stamped_def)
  have "getChat env3 nid s2
          = Messages (existing @ [stamped tId1 rnd1 t1 p1, stamped tId2 rnd2 t2 p2])"
    unfolding s2 using assms(3,4) np by (simp add: getChat_saveChat_same)
  with ex r1 r2 show ?thesis by (simp add: stamped_def)
qed

text \<open>Two messages added to an empty store at the readings 1000 and 1001.\<close>

theorem addChatMessage_twice_witness:
  "lsStatus okBrowser = LsOk \<and> ascii ''1_n'' \<notin> set objectPrototypeMembers
   \<and> getChat okBrowser (ascii ''1_n'')
        (snd (addChatMessage okBrowser 1001 (ascii ''b'') 1001 (ascii ''1_n'') (exPayload ''two'')
           (snd (addChatMessage okBrowser 1000 (ascii ''a'') 1000 (ascii ''1_n'') (exPayload ''one'')
              emptyStore))))
     = Messages
        [\<lparr> msgId = generateId 1000 (ascii ''a''), msgContent = ascii ''one'', isUser = True,
            timestamp = 1000, msgSources = None \<rparr>,
         \<lparr> msgId = generateId 1001 (ascii ''b''), msgContent = ascii ''two'', isUser = True,
            timestamp = 1001, msgSources = None \<rparr>]"
proof -
  have ok: "lsStatus okBrowser = LsOk" "lsStatus okBrowser \<noteq> LsUnavailable"
    by (simp_all add: okBrowser_def)
  have plain: "ascii ''1_n'' \<notin> set objectPrototypeMembers"
    by (simp add: objectPrototypeMembers_def ascii_def)
  have e: "getChat okBrowser (ascii ''1_n'') emptyStore = Messages []"
    using plain
    by (simp add: getChat_def lookupChats_def getFromLocalStorage_cases okBrowser_def emptyStore_def)
  let ?r1 = "addChatMessage okBrowser 1000 (ascii ''a'') 1000 (ascii ''1_n'') (exPayload ''one'')
              emptyStore"
  let ?r2 = "addChatMessage okBrowser 1001 (ascii ''b'') 1001 (ascii ''1_n'') (exPayload ''two'')
              (snd ?r1)"
  have r1: "?r1 = (fst ?r1, snd ?r1)" and r2: "?r2 = (fst ?r2, snd ?r2)" by simp_all
  note both = addChatMessage_twice [OF ok(1) ok(1) ok(2) plain r1 r2, THEN conjunct2,
      THEN conjunct2, THEN conjunct1]
  from both ok plain e show ?thesis by (auto simp: exPayload_def)
qed

text \<open>
  The claim as stated fails. Two calls within one millisecond (both read the clock at
  1000) resolve with equal timestamps, not strictly increasing ones; when \<open>setItem\<close>
  throws for lack of quota, both calls resolve with their message but \<open>getChat\<close>
  returns neither; and for the id \<open>constructor\<close> the call is rejected and nothing is
  stored.
\<close>

theorem addChatMessage_twice_counterexample:
  "fst (addChatMessage okBrowser 1000 (ascii ''a'') 1000 (ascii ''1_n'') (exPayload ''one'')
          emptyStore)
     = Inr \<lparr> msgId = generateId 1000 (ascii ''a''), msgContent = ascii ''one'', isUser = True,
             timestamp = 1000, msgSources = None \<rparr>
   \<and> fst (addChatMessage okBrowser 1000 (ascii ''b'') 1000 (ascii ''1_n'') (exPayload ''two'')
          (snd (addChatMessage okBrowser 1000 (ascii ''a'') 1000 (ascii ''1_n'')
                  (exPayload ''one'') emptyStore)))
     = Inr \<lparr> msgId = generateId 1000 (ascii ''b''), msgContent = ascii ''two'', isUser = True,
             timestamp = 1000, msgSources = None \<rparr>
   \<and> getChat quotaBrowser (ascii ''1_n'')
        (snd (addChatMessage quotaBrowser 1001 (ascii ''b'') 1001 (ascii ''1_n'') (exPayload ''two'')
           (snd (addChatMessage quotaBrowser 1000 (ascii ''a'') 1000 (ascii ''1_n'')
              (exPayload ''one'') emptyStore)))) = Messages []
   \<and> addChatMessage okBrowser 1000 (ascii ''a'') 1000 (ascii ''constructor'') (exPayload ''one'')
        emptyStore
     = (Inl (ErrorObj (ascii ''TypeError'') (ascii ''existingMessages is not iterable'')),
        emptyStore)"
proof -
  have plain: "ascii ''1_n'' \<notin> set objectPrototypeMembers"
    by (simp add: objectPrototypeMembers_def ascii_def)
  have proto: "ascii ''constructor'' \<in> set objectPrototypeMembers"
    by (simp add: objectPrototypeMembers_def)
  have ne: "ascii ''1_n'' \<noteq> ascii ''__proto__''" by (simp add: ascii_def)
  show ?thesis
    using plain proto ne
    by (simp add: addChatMessage_def Let_def saveChat_def getChat_def lookupChats_def
        assignChats_def getFromLocalStorage_cases saveToLocalStorage_cases okBrowser_def
        quotaBrowser_def emptyStore_def exPayload_def)
qed

section \<open>Deleting a notebook\<close>

text \<open>
  C2, as amended. \<open>deleteNotebook\<close>, and with it \<open>handleDeleteNotebook\<close>, whose only
  storage call it is, removes at most the notebook record of that id: the file records,
  the chat lists and the settings stay as they were, so the deleted notebook's files and
  messages remain retrievable; every other notebook record stays; and when the call
  resolves with a database handle, the notebook of that id is absent.
\<close>

theorem deleteNotebook_only_notebook:
  assumes "deleteNotebook env nid s = (r, s')"
  shows "files s' = files s \<and> ls_chats s' = ls_chats s \<and> ls_settings s' = ls_settings s
       \<and> (\<forall>env'. getChat env' nid s' = getChat env' nid s)
       \<and> (\<forall>k. k \<noteq> nid \<longrightarrow> map_of (notebooks s') k = map_of (notebooks s) k)
       \<and> (r = Inr () \<and> db s' \<longrightarrow> map_of (notebooks s') nid = None)
       \<and> fst (handleDeleteNotebook env True nid (s, nbs)) = s'"
  using assms
  by (auto simp: deleteNotebook_def handleDeleteNotebook_def ensureDb_cases map_of_idb_delete
        getChat_def
      split: if_splits idb_status.splits)

text \<open>Deleting the one notebook of the example store removes its record and keeps its file.\<close>

theorem deleteNotebook_only_notebook_witness:
  "deleteNotebook okBrowser (ascii ''1_n'') exStore = (Inr (), exStore\<lparr>notebooks := []\<rparr>)
   \<and> ascii ''2_x'' \<noteq> ascii ''1_n''
   \<and> db (exStore\<lparr>notebooks := []\<rparr>)
   \<and> files (exStore\<lparr>notebooks := []\<rparr>) = files exStore
   \<and> map_of (notebooks (exStore\<lparr>notebooks := []\<rparr>)) (ascii ''1_n'') = None"
proof -
  have run: "deleteNotebook okBrowser (ascii ''1_n'') exStore = (Inr (), exStore\<lparr>notebooks := []\<rparr>)"
    by (simp add: deleteNotebook_def ensureDb_cases idb_delete_def okBrowser_def
        exStore_def exNotebook_def)
  have d: "db (exStore\<lparr>notebooks := []\<rparr>)" by (simp add: exStore_def)
  have ne: "ascii ''2_x'' \<noteq> ascii ''1_n''" by (simp add: ascii_def)
  from deleteNotebook_only_notebook [OF run] run d ne show ?thesis by simp
qed

text \<open>
  The claim as stated fails: after \<open>deleteNotebook\<close> of the example notebook, and
  after the dashboard's handler, the file it owns is still returned by
  \<open>getFilesByNotebook\<close> and \<open>getFile\<close>, and its message by \<open>getChat\<close>.
\<close>

theorem deleteNotebook_cascade_counterexample:
  "fst (getFilesByNotebook okBrowser (ascii ''1_n'')
          (snd (deleteNotebook okBrowser (ascii ''1_n'') exStore))) = Inr [exFile]
   \<and> getChat okBrowser (ascii ''1_n'') (snd (deleteNotebook okBrowser (ascii ''1_n'') exStore))
       = Messages [exMessage]
   \<and> fst (getFile okBrowser (ascii ''file_1_a'')
          (fst (handleDeleteNotebook okBrowser True (ascii ''1_n'') (exStore, [])))) = Inr (Some exFile)"
  by (simp add: deleteNotebook_def handleDeleteNotebook_def getFilesByNotebook_def getFile_def
      getFromIndexedDB_cases getChat_def lookupChats_def getFromLocalStorage_cases ensureDb_cases
      idb_delete_def okBrowser_def exStore_def exNotebook_def exFile_def exMessage_def)

section \<open>Creating a notebook\<close>

text \<open>
  C4, as amended. When a database handle exists or can be opened and the requests
  succeed, \<open>createNotebook\<close> returns the record with the given title and description,
  an empty source list, \<open>createdAt\<close> and \<open>updatedAt\<close> set to its two clock readings,
  and the id built by \<open>generateId\<close>, which no other pair of clock reading and random
  string produces. Every notebook stored under another id is untouched, and
  \<open>getNotebook\<close> of the returned id then yields that same record, with
  \<open>updatedAt\<close> not before \<open>createdAt\<close> whenever the second reading is not before the
  first.
\<close>

theorem createNotebook_roundtrip:
  fixes title :: jstring and description :: "jstring option"
  defines "created tId rnd tCreated tUpdated \<equiv>
             \<lparr> nbId = generateId tId rnd, nbTitle = title, nbDescription = description,
               nbSources = [], createdAt = tCreated, updatedAt = tUpdated,
               nbSummary = None, nbTags = Some [] \<rparr>"
  assumes avail: "db s \<or> idbStatus env = IdbOpens"
    and ok: "\<not> idb_request_fails env" and ok': "\<not> idb_request_fails env'"
    and run: "createNotebook env tId rnd tCreated tUpdated title description s = (r, s')"
  shows "r = Inr (created tId rnd tCreated tUpdated)
       \<and> getNotebook env' (generateId tId rnd) s'
           = (Inr (Some (created tId rnd tCreated tUpdated)), s')
       \<and> (tCreated \<le> tUpdated \<longrightarrow>
            createdAt (created tId rnd tCreated tUpdated)
              \<le> updatedAt (created tId rnd tCreated tUpdated))
       \<and> (\<forall>t' rnd'. generateId t' rnd' = generateId tId rnd \<longrightarrow> t' = tId \<and> rnd' = rnd)
       \<and> (\<forall>k. k \<noteq> generateId tId rnd \<longrightarrow> map_of (notebooks s') k = map_of (notebooks s) k)"
  using avail ok ok' run
  by (auto simp: created_def createNotebook_def getNotebook_def Let_def saveToIndexedDB_cases
        getFromIndexedDB_cases map_of_idb_put dest: generateId_inj
        split: if_splits idb_status.splits)

text \<open>A notebook created in an empty store, with the readings 5, 6 and 7, is read back.\<close>

theorem createNotebook_roundtrip_witness:
  "(db emptyStore \<or> idbStatus okBrowser = IdbOpens) \<and> \<not> idb_request_fails okBrowser
   \<and> (6::int) \<le> 7 \<and> generateId 5 (ascii ''a'') = ascii ''5_a''
   \<and> getNotebook okBrowser (generateId 5 (ascii ''a''))
        (snd (createNotebook okBrowser 5 (ascii ''a'') 6 7 (ascii ''Leases'') None emptyStore))
       = (Inr (Some \<lparr> nbId = generateId 5 (ascii ''a''), nbTitle = ascii ''Leases'',
                         nbDescription = None, nbSources = [], createdAt = 6, updatedAt = 7,
                         nbSummary = None, nbTags = Some [] \<rparr>),
          snd (createNotebook okBrowser 5 (ascii ''a'') 6 7 (ascii ''Leases'') None emptyStore))"
proof -
  have a: "db emptyStore \<or> idbStatus okBrowser = IdbOpens" "\<not> idb_request_fails okBrowser"
    by (simp_all add: okBrowser_def emptyStore_def)
  let ?r = "createNotebook okBrowser 5 (ascii ''a'') 6 7 (ascii ''Leases'') None emptyStore"
  have r: "?r = (fst ?r, snd ?r)" by simp
  have i: "generateId 5 (ascii ''a'') = ascii ''5_a''"
    by (simp add: generateId_def numberToString_def digits.simps ascii_def)
  note g = createNotebook_roundtrip [OF a(1) a(2) a(2) r, THEN conjunct2, THEN conjunct1]
  from a i g show ?thesis by simp
qed

text \<open>
  The claim as stated fails in three ways. Where IndexedDB is not supported,
  \<open>createNotebook\<close> returns a record that was never stored, and \<open>getNotebook\<close> of its id
  finds nothing. The id is not checked against the store: at clock reading 1 with random
  string \<open>n\<close> it is the id of the notebook the example store already holds. And the two
  timestamps are separate readings: when the clock is set back between them (7, then 6),
  \<open>updatedAt\<close> is before \<open>createdAt\<close>.
\<close>

theorem createNotebook_roundtrip_counterexample:
  "isl (fst (createNotebook noIdbBrowser 5 (ascii ''a'') 5 5 (ascii ''Leases'') None emptyStore))
     = False
   \<and> fst (getNotebook noIdbBrowser (generateId 5 (ascii ''a''))
        (snd (createNotebook noIdbBrowser 5 (ascii ''a'') 5 5 (ascii ''Leases'') None emptyStore)))
     = Inr None
   \<and> generateId 1 (ascii ''n'') \<in> fst ` set (notebooks exStore)
   \<and> fst (createNotebook okBrowser 1 (ascii ''n'') 7 6 (ascii ''Leases'') None exStore)
     = Inr \<lparr> nbId = ascii ''1_n'', nbTitle = ascii ''Leases'', nbDescription = None,
             nbSources = [], createdAt = 7, updatedAt = 6, nbSummary = None, nbTags = Some [] \<rparr>"
  by (simp add: createNotebook_def getNotebook_def getFromIndexedDB_cases saveToIndexedDB_cases
      Let_def generateId_def numberToString_def digits.simps ascii_def noIdbBrowser_def
      okBrowser_def emptyStore_def exStore_def exNotebook_def)

section \<open>Storage failures\<close>

lemma tierA_unavailable:
  "lsStatus env = LsUnavailable \<Longrightarrow>
     getSettings env s = []
     \<and> (nid \<notin> set objectPrototypeMembers \<longrightarrow> getChat env nid s = Messages [])"
  by (simp add: getChat_def lookupChats_def getSettings_def getFromLocalStorage_cases)

lemma tierA_write_noop:
  "lsStatus env \<noteq> LsOk \<Longrightarrow>
     saveChat env nid ms s = s \<and> saveSettings env st s = s
     \<and> snd (addChatMessage env tId rnd tStamp nid payload s) = s"
  by (cases "getChat env nid s")
     (simp_all add: saveChat_def saveSettings_def addChatMessage_def Let_def
        saveToLocalStorage_cases)

lemma addChatMessage_resolves:
  "nid \<notin> set objectPrototypeMembers \<Longrightarrow>
     fst (addChatMessage env tId rnd tStamp nid payload s)
       = Inr \<lparr> msgId = generateId tId rnd, msgContent = plContent payload,
               isUser = plIsUser payload, timestamp = tStamp,
               msgSources = plSources payload \<rparr>"
  using getChat_plain_id [of nid env s] by (auto simp: addChatMessage_def Let_def)

lemma tierB_unsupported:
  "\<not> db s \<Longrightarrow> idbStatus env = IdbUnsupported \<Longrightarrow>
     getNotebook env k s = (Inr None, s) \<and> getFile env k s = (Inr None, s)
     \<and> getAllNotebooks env s = (Inr [], s) \<and> getFilesByNotebook env k s = (Inr [], s)
     \<and> snd (createNotebook env tId rnd tCreated tUpdated title description s) = s
     \<and> isl (fst (createNotebook env tId rnd tCreated tUpdated title description s)) = False
     \<and> updateNotebook env now nb s = (Inr (), s) \<and> saveFile env f k s = (Inr (), s)
     \<and> deleteNotebook env k s = (Inr (), s)"
  by (simp add: getNotebook_def getFile_def getAllNotebooks_def getFilesByNotebook_def
      createNotebook_def updateNotebook_def saveFile_def deleteNotebook_def Let_def
      getAllFromIndexedDB_def getFromIndexedDB_cases saveToIndexedDB_cases ensureDb_cases)

lemma tierB_open_fails:
  "\<not> db s \<Longrightarrow> idbStatus env = IdbOpenFails \<Longrightarrow>
     getNotebook env k s = (Inl OpenError, s) \<and> getFile env k s = (Inl OpenError, s)
     \<and> getAllNotebooks env s = (Inl OpenError, s) \<and> getFilesByNotebook env k s = (Inl OpenError, s)
     \<and> createNotebook env tId rnd tCreated tUpdated title description s = (Inl OpenError, s)
     \<and> updateNotebook env now nb s = (Inl OpenError, s) \<and> saveFile env f k s = (Inl OpenError, s)
     \<and> deleteNotebook env k s = (Inl OpenError, s)"
  by (simp add: getNotebook_def getFile_def getAllNotebooks_def getFilesByNotebook_def
      createNotebook_def updateNotebook_def saveFile_def deleteNotebook_def Let_def
      getAllFromIndexedDB_def getFromIndexedDB_cases saveToIndexedDB_cases ensureDb_cases)

lemma tierB_request_fails:
  "db s \<or> idbStatus env = IdbOpens \<Longrightarrow> idb_request_fails env \<Longrightarrow>
     fst (getNotebook env k s) = Inl RequestError \<and> fst (getFile env k s) = Inl RequestError
     \<and> fst (getAllNotebooks env s) = Inl RequestError
     \<and> fst (getFilesByNotebook env k s) = Inl RequestError
     \<and> fst (createNotebook env tId rnd tCreated tUpdated title description s) = Inl RequestError
     \<and> fst (updateNotebook env now nb s) = Inl RequestError
     \<and> fst (saveFile env f k s) = Inl RequestError
     \<and> fst (deleteNotebook env k s) = Inl RequestError"
  by (auto simp: getNotebook_def getFile_def getAllNotebooks_def getFilesByNotebook_def
      createNotebook_def updateNotebook_def saveFile_def deleteNotebook_def Let_def
      getAllFromIndexedDB_def getFromIndexedDB_cases saveToIndexedDB_cases ensureDb_cases)

text \<open>
  C6, as amended. A failure of \<open>localStorage\<close> never reaches the caller of the chat
  and settings operations. When it cannot be accessed, \<open>getSettings\<close> returns the
  empty record and \<open>getChat\<close>, for a notebook id that does not name a member of
  \<open>Object.prototype\<close>, the empty list. Whenever \<open>setItem\<close> throws (no access, or no
  quota), \<open>saveChat\<close>, \<open>saveSettings\<close> and \<open>addChatMessage\<close> leave the state as it
  was, and \<open>addChatMessage\<close> for such an id still resolves with its message. The
  operations on notebooks and files resolve to null, an empty list or a no-op when
  there is no database handle and IndexedDB is not supported. They reject, though,
  when opening the database fails and when a request fails.
\<close>

theorem storage_failure_semantics:
  "(lsStatus env = LsUnavailable \<longrightarrow>
         getSettings env s = []
         \<and> (nid \<notin> set objectPrototypeMembers \<longrightarrow> getChat env nid s = Messages []))
   \<and> (lsStatus env \<noteq> LsOk \<longrightarrow>
         saveChat env nid ms s = s \<and> saveSettings env st s = s
         \<and> snd (addChatMessage env tId rnd tStamp nid payload s) = s)
   \<and> (nid \<notin> set objectPrototypeMembers \<longrightarrow>
         fst (addChatMessage env tId rnd tStamp nid payload s)
           = Inr \<lparr> msgId = generateId tId rnd, msgContent = plContent payload,
                   isUser = plIsUser payload, timestamp = tStamp,
                   msgSources = plSources payload \<rparr>)
   \<and> (\<not> db s \<and> idbStatus env = IdbUnsupported \<longrightarrow>
         getNotebook env k s = (Inr None, s) \<and> getFile env k s = (Inr None, s)
         \<and> getAllNotebooks env s = (Inr [], s) \<and> getFilesByNotebook env k s = (Inr [], s)
         \<and> snd (createNotebook env tId rnd tCreated tUpdated title description s) = s
         \<and> isl (fst (createNotebook env tId rnd tCreated tUpdated title description s)) = False
         \<and> updateNotebook env now nb s = (Inr (), s) \<and> saveFile env f k s = (Inr (), s)
         \<and> deleteNotebook env k s = (Inr (), s))
   \<and> (\<not> db s \<and> idbStatus env = IdbOpenFails \<longrightarrow>
         getNotebook env k s = (Inl OpenError, s) \<and> getFile env k s = (Inl OpenError, s)
         \<and> getAllNotebooks env s = (Inl OpenError, s)
         \<and> getFilesByNotebook env k s = (Inl OpenError, s)
         \<and> createNotebook env tId rnd tCreated tUpdated title description s = (Inl OpenError, s)
         \<and> updateNotebook env now nb s = (Inl OpenError, s)
         \<and> saveFile env f k s = (Inl OpenError, s)
         \<and> deleteNotebook env k s = (Inl OpenError, s))
   \<and> ((db s \<or> idbStatus env = IdbOpens) \<and> idb_request_fails env \<longrightarrow>
         fst (getNotebook env k s) = Inl RequestError \<and> fst (getFile env k s) = Inl RequestError
         \<and> fst (getAllNotebooks env s) = Inl RequestError
         \<and> fst (getFilesByNotebook env k s) = Inl RequestError
         \<and> fst (createNotebook env tId rnd tCreated tUpdated title description s)
             = Inl RequestError
         \<and> fst (updateNotebook env now nb s) = Inl RequestError
         \<and> fst (saveFile env f k s) = Inl RequestError
         \<and> fst (deleteNotebook env k s) = Inl RequestError)"
  using tierA_unavailable [of env s nid] tierA_write_noop [of env nid ms s st tId rnd tStamp payload]
    addChatMessage_resolves [of nid env tId rnd tStamp payload s]
    tierB_unsupported [of s env k tId rnd tCreated tUpdated title description now nb f]
    tierB_open_fails [of s env k tId rnd tCreated tUpdated title description now nb f]
    tierB_request_fails [of s env k tId rnd tCreated tUpdated title description now nb f]
  by blast

text \<open>Each of the conditions, met by a concrete browser, store and notebook id.\<close>

theorem storage_failure_semantics_witness:
  "lsStatus lsDownBrowser = LsUnavailable \<and> lsStatus quotaBrowser \<noteq> LsOk
   \<and> ascii ''1_n'' \<notin> set objectPrototypeMembers
   \<and> \<not> db emptyStore \<and> idbStatus noIdbBrowser = IdbUnsupported
   \<and> idbStatus openFailsBrowser = IdbOpenFails
   \<and> db exStore \<and> idb_request_fails quotaBrowser
   \<and> getChat lsDownBrowser (ascii ''1_n'') exStore = Messages []
   \<and> saveChat quotaBrowser (ascii ''1_n'') [] exStore = exStore
   \<and> addChatMessage quotaBrowser 3 (ascii ''r'') 3 (ascii ''1_n'') (exPayload ''hi'') exStore
       = (Inr \<lparr> msgId = generateId 3 (ascii ''r''), msgContent = ascii ''hi'', isUser = True,
                timestamp = 3, msgSources = None \<rparr>, exStore)
   \<and> getNotebook noIdbBrowser (ascii ''1_n'') emptyStore = (Inr None, emptyStore)
   \<and> getNotebook openFailsBrowser (ascii ''1_n'') emptyStore = (Inl OpenError, emptyStore)
   \<and> fst (getNotebook quotaBrowser (ascii ''1_n'') exStore) = Inl RequestError"
proof -
  have a: "lsStatus lsDownBrowser = LsUnavailable" "lsStatus quotaBrowser \<noteq> LsOk"
    "\<not> db emptyStore" "idbStatus noIdbBrowser = IdbUnsupported"
    "idbStatus openFailsBrowser = IdbOpenFails" "db exStore" "idb_request_fails quotaBrowser"
    by (simp_all add: lsDownBrowser_def quotaBrowser_def noIdbBrowser_def
        openFailsBrowser_def emptyStore_def exStore_def)
  have plain: "ascii ''1_n'' \<notin> set objectPrototypeMembers"
    by (simp add: objectPrototypeMembers_def ascii_def)
  let ?add = "addChatMessage quotaBrowser 3 (ascii ''r'') 3 (ascii ''1_n'') (exPayload ''hi'') exStore"
  have pair: "?add = (fst ?add, snd ?add)" by simp
  note down = storage_failure_semantics [where env = lsDownBrowser and nid = "ascii ''1_n''"
      and s = exStore, THEN conjunct1]
  note quota = storage_failure_semantics [where env = quotaBrowser and nid = "ascii ''1_n''"
      and s = exStore and ms = "[]" and tId = 3 and rnd = "ascii ''r''" and tStamp = 3
      and payload = "exPayload ''hi''", THEN conjunct2]
  note noIdb = storage_failure_semantics [where env = noIdbBrowser and s = emptyStore
      and k = "ascii ''1_n''", THEN conjunct2, THEN conjunct2, THEN conjunct2, THEN conjunct1]
  note openFails = storage_failure_semantics [where env = openFailsBrowser and s = emptyStore
      and k = "ascii ''1_n''", THEN conjunct2, THEN conjunct2, THEN conjunct2, THEN conjunct2,
      THEN conjunct1]
  note request = storage_failure_semantics [where env = quotaBrowser and s = exStore
      and k = "ascii ''1_n''", THEN conjunct2, THEN conjunct2, THEN conjunct2, THEN conjunct2,
      THEN conjunct2]
  have add: "?add = (Inr \<lparr> msgId = generateId 3 (ascii ''r''), msgContent = ascii ''hi'',
                            isUser = True, timestamp = 3, msgSources = None \<rparr>, exStore)"
    using quota a(2) plain by (subst pair) (simp add: exPayload_def)
  from a plain down quota noIdb openFails request add show ?thesis by simp
qed

text \<open>
  The claim as stated fails: a failed \<open>indexedDB.open\<close> makes \<open>getNotebook\<close>
  reject, and a failed \<open>put\<close> (quota exceeded) makes \<open>createNotebook\<close> reject.
\<close>

theorem storage_failure_counterexample:
  "fst (getNotebook openFailsBrowser (ascii ''1_n'') emptyStore) = Inl OpenError
   \<and> fst (createNotebook quotaBrowser 5 (ascii ''a'') 5 5 (ascii ''Leases'') None exStore)
       = Inl RequestError"
  by (simp add: openFailsBrowser_def quotaBrowser_def emptyStore_def exStore_def
      getNotebook_def getFromIndexedDB_cases createNotebook_def saveToIndexedDB_cases Let_def)

section \<open>The summarizer and chat client\<close>

lemma classifyError_cases:
  "classifyError e \<in> {apiKeyErrorMessage, quotaErrorMessage, safetyErrorMessage, genericErrorMessage}"
  by (cases e) (simp_all add: classifyError_def)

lemma error_messages_nonempty:
  "apiKeyErrorMessage \<noteq> [] \<and> quotaErrorMessage \<noteq> [] \<and> safetyErrorMessage \<noteq> []
   \<and> genericErrorMessage \<noteq> []"
  by (simp add: apiKeyErrorMessage_def quotaErrorMessage_def safetyErrorMessage_def
      genericErrorMessage_def)

text \<open>
  When the remote call fails, the summary is one of the four fixed explanations, chosen
  by the message of the error, and there is exactly one key point.
\<close>

lemma generateSourceSummary_on_failure:
  assumes "remote fname (if length content > 10000 then take 10000 content @ truncationMark
                         else content) (length content div 5) = outcome"
    and "outcome = NoResponse \<or> outcome = CallThrows e"
    and "content \<noteq> []" and "50 \<le> length (trim content)"
  shows "\<exists>msg. summary (fst (generateSourceSummary parse remote now rnd fname content)) = JString msg
           \<and> msg \<in> {apiKeyErrorMessage, quotaErrorMessage, safetyErrorMessage, genericErrorMessage}
           \<and> msg \<noteq> []
           \<and> keyPoints (fst (generateSourceSummary parse remote now rnd fname content))
               = [JString errorKeyPoint]"
proof -
  obtain err where
    "fst (generateSourceSummary parse remote now rnd fname content)
       = \<lparr> sourceId = sourceIdOf now rnd, fileName = fname,
           summary = JString (classifyError err), keyPoints = [JString errorKeyPoint],
           wordCount = of_nat (length content div 5),
           language = JString (detectLanguage content) \<rparr>"
    using assms by (auto simp: generateSourceSummary_def Let_def)
  then show ?thesis
    using classifyError_cases [of err] error_messages_nonempty by auto
qed

text \<open>The line-based extraction always yields a key point; an empty list of key points
  can only come out of the strict parse of a reply.\<close>

lemma parseHeuristic_keyPoints: "keyPoints (parseHeuristic sid fname content text) \<noteq> []"
  by (simp add: parseHeuristic_def Let_def)

lemma empty_keyPoints_only_from_strict_parse:
  assumes "keyPoints (fst (generateSourceSummary parse remote now rnd fname content)) = []"
  shows "\<exists>text s. remote fname (if length content > 10000 then take 10000 content @ truncationMark
                                 else content) (length content div 5) = ReplyText text
              \<and> parseStrict parse (sourceIdOf now rnd) fname content text = Inr s
              \<and> keyPoints s = []"
  using assms parseHeuristic_keyPoints
  by (auto simp: generateSourceSummary_def Let_def split: if_splits remote_outcome.splits sum.splits)

lemma trim_replicate_letter: "trim (replicate n 0x78) = replicate n 0x78"
  by (simp add: trim_def isWhiteSpace_def dropWhile_replicate)

text \<open>
  C1. The claim asks for at least one key point in every summary. For a content of 100
  letters and a reply of the service that is valid JSON with an empty \<open>keyPoints\<close>
  array, \<open>generateSourceSummary\<close> returns the summary text of the reply with no key
  point at all: the strict parse checks \<open>Array.isArray\<close> and not the length, which
  the line-based extraction does check.
\<close>

theorem generateSourceSummary_empty_keyPoints:
  "keyPoints (fst (generateSourceSummary parseOfReply replyingRemote 1 (ascii ''s'')
                     (ascii ''lease.txt'') hundredLetters)) = []
   \<and> summary (fst (generateSourceSummary parseOfReply replyingRemote 1 (ascii ''s'')
                     (ascii ''lease.txt'') hundredLetters)) = JString (ascii ''ok'')"
proof -
  have m: "matchBraces emptyKeyPointsReply = Some emptyKeyPointsReply"
    by (simp add: matchBraces_def emptyKeyPointsReply_def)
  have t: "emptyKeyPointsReply \<noteq> [] \<and> length (trim emptyKeyPointsReply) \<noteq> 0"
    by (simp add: emptyKeyPointsReply_def trim_def isWhiteSpace_def)
  have c: "hundredLetters \<noteq> [] \<and> \<not> length (trim hundredLetters) < 50"
    by (simp add: hundredLetters_def trim_replicate_letter)
  have p: "parseStrict parseOfReply sid fname content emptyKeyPointsReply
             = Inr \<lparr> sourceId = sid, fileName = fname, summary = JString (ascii ''ok''),
                     keyPoints = [], wordCount = of_nat (length content div 5),
                     language = JString (detectLanguage content) \<rparr>" for sid fname content
    by (simp add: parseStrict_def m parseOfReply_def ascii_def)
  show ?thesis
    using t c by (simp add: generateSourceSummary_def replyingRemote_def p Let_def)
qed

text \<open>
  C8. When the remote call of \<open>generateChatResponse\<close> fails, by a thrown error or a
  missing response object, the function returns the fixed apology with an empty source
  list and confidence 0, whatever the query, the sources and the history are.
\<close>

theorem generateChatResponse_on_failure:
  assumes "remote userQuery sources (drop (length chatHistory - 6) chatHistory) = outcome"
    and "outcome = NoResponse \<or> outcome = CallThrows e"
  shows "generateChatResponse remote userQuery sources chatHistory
           = \<lparr> crContent = chatApology, crSources = [], confidence = 0 \<rparr>"
  using assms by (auto simp: generateChatResponse_def)

text \<open>A question put to a service whose call throws.\<close>

theorem generateChatResponse_on_failure_witness:
  "generateChatResponse (\<lambda>q ss h. CallThrows (newError (ascii ''fetch failed'')))
      (ascii ''What is the rent?'') [] []
     = \<lparr> crContent = chatApology, crSources = [], confidence = 0 \<rparr>"
  using generateChatResponse_on_failure
    [of "\<lambda>q ss h. CallThrows (newError (ascii ''fetch failed''))" "ascii ''What is the rent?''"
        "[]" "[]" "CallThrows (newError (ascii ''fetch failed''))" "newError (ascii ''fetch failed'')"]
  by simp

section \<open>File ingestion\<close>

text \<open>
  C3. For every processed file whose content is shorter than 100 code units,
  \<open>generateFileSummary\<close> makes no remote call and returns the file with the canned
  summary: the fixed text for a short document and the single key point that marks it.
  The result does not depend on the service or on the parser.
\<close>

theorem generateFileSummary_short:
  assumes "length (pfContent pf) < 100"
  shows "generateFileSummary parse remote now rnd pf
           = (pf\<lparr>isProcessing := Some False,
                 pfSummary := Some \<lparr> sourceId = pfId pf, fileName = pfName pf,
                                     summary = JString shortDocumentSummary,
                                     keyPoints = [JString shortDocumentMarker],
                                     wordCount = of_nat (length (pfContent pf)) / 5,
                                     language = JString (detectLanguage (pfContent pf)) \<rparr>\<rparr>, 0)
       \<and> generateFileSummary parse remote now rnd pf = generateFileSummary parse' remote' now rnd pf"
  using assms by (simp add: generateFileSummary_def fileSummaryAttempt_def)

text \<open>The file \<open>note.txt\<close> of 50 letters: extracted verbatim, then summarized without a
  remote call.\<close>

theorem generateFileSummary_short_witness:
  "resFile (processFile asciiLowerCase 1 (ascii ''f'') noteFile) = Some noteProcessed
   \<and> length (pfContent noteProcessed) < 100
   \<and> generateFileSummary noParse failingRemote 2 (ascii ''s'') noteProcessed
       = (noteProcessed\<lparr>isProcessing := Some False,
            pfSummary := Some \<lparr> sourceId = ascii ''file_1_f'', fileName = ascii ''note.txt'',
                                summary = JString shortDocumentSummary,
                                keyPoints = [JString shortDocumentMarker],
                                wordCount = 10, language = JString langEnglish \<rparr>\<rparr>, 0)"
proof -
  have p: "resFile (processFile asciiLowerCase 1 (ascii ''f'') noteFile) = Some noteProcessed"
    by (simp add: processFile_def extractContent_def extractTextFileContent_def Let_def
        noteFile_def noteProcessed_def asciiLowerCase_def ascii_def endsWith_def startsWith_def
        generateFileId_def numberToString_def digits.simps)
  have s: "length (pfContent noteProcessed) < 100" by (simp add: noteProcessed_def)
  have l: "detectLanguage (pfContent noteProcessed) = langEnglish"
    by (simp add: detectLanguage_def hangulTest_def noteProcessed_def isHangulSyllable_def
        list_ex_iff)
  from generateFileSummary_short [OF s, of noParse failingRemote 2 "ascii ''s''"] p s l
  show ?thesis by (simp add: noteProcessed_def)
qed

subsection \<open>The loop of the upload modal\<close>













end
